theory Spec2Isabelle
  imports Main "HOL-Library.Word"
begin

section \<open>The X11 Vulkan driver shim (dlls/winex11.drv/vulkan.c)\<close>

text \<open>
  A shallow embedding of the driver file. Every function of the file is a HOL function
  that takes the program state and returns the C return value together with the new
  state. What the file obtains from outside (the process heap, user32, the X11 driver,
  the dynamic loader and the native Vulkan library) is read from an environment record,
  so every theorem holds for all behaviours of these collaborators.

  Pointers are addresses, \<open>0\<close> being the null pointer. A \<open>const char *\<close> is either the
  address of a string in the caller's memory or a string literal of the driver itself;
  a C string is modelled by the characters before its terminating NUL. Arrays of
  string pointers are indexed with integers, so that an access below the start of an
  array is an access to the memory that lies there. Byte sizes are natural numbers: the
  source computes them in \<open>size_t\<close>, which on the 64-bit build holds the product of any
  \<open>uint32_t\<close> count and the size of a pointer.
\<close>

subsection \<open>Basic types\<close>

type_synonym addr = nat

abbreviation NULL :: addr where
  "NULL \<equiv> 0"

text \<open>
  Modelled from the spec: the Vulkan declarations of wine/vulkan.h are not part of the
  file. \<open>VkResult\<close> is a C enumeration, with the values the Vulkan API gives to the
  result codes the file uses; the descriptor \<open>VkInstanceCreateInfo\<close> is the record the
  specification describes (a type tag, an optional chain of tagged records, flags, an
  opaque application-info pointer, a counted list of layer names and a counted list of
  extension names).
\<close>

type_synonym VkResult = int

definition VK_SUCCESS :: VkResult where
  "VK_SUCCESS = 0"

definition VK_INCOMPLETE :: VkResult where
  "VK_INCOMPLETE = 5"

definition VK_ERROR_OUT_OF_HOST_MEMORY :: VkResult where
  "VK_ERROR_OUT_OF_HOST_MEMORY = - 1"

definition VK_ERROR_LAYER_NOT_PRESENT :: VkResult where
  "VK_ERROR_LAYER_NOT_PRESENT = - 6"

definition VK_ERROR_INCOMPATIBLE_DRIVER :: VkResult where
  "VK_ERROR_INCOMPATIBLE_DRIVER = - 9"

definition VK_STRUCTURE_TYPE_XLIB_SURFACE_CREATE_INFO_KHR :: "32 word" where
  "VK_STRUCTURE_TYPE_XLIB_SURFACE_CREATE_INFO_KHR = 1000004000"

datatype cstr = Literal string | StrPtr addr

text \<open>\<open>struct wine_vk_structure_header\<close>: a type tag and the rest of the chain.\<close>

datatype wine_vk_structure_header =
  Header (hdr_sType: "32 word") (hdr_pNext: "wine_vk_structure_header option")

record VkInstanceCreateInfo =
  sType :: "32 word"
  pNext :: "wine_vk_structure_header option"
  flags :: "32 word"
  pApplicationInfo :: addr
  enabledLayerCount :: "32 word"
  ppEnabledLayerNames :: addr
  enabledExtensionCount :: "32 word"
  ppEnabledExtensionNames :: addr

record wine_vk_surface =
  surf_window :: nat
  surf_surface :: "64 word"

record VkXlibSurfaceCreateInfoKHR =
  xlib_sType :: "32 word"
  xlib_pNext :: addr
  xlib_flags :: "32 word"
  dpy :: addr
  xlib_window :: nat

record VkWin32SurfaceCreateInfoKHR =
  w32_sType :: "32 word"
  w32_pNext :: addr
  w32_flags :: "32 word"
  hinstance :: addr
  hwnd :: addr

record VkExtensionProperties =
  extensionName :: string
  specVersion :: "32 word"

definition winex11_vk_instance_extensions :: "VkExtensionProperties list" where
  "winex11_vk_instance_extensions =
     [\<lparr>extensionName = ''VK_KHR_surface'', specVersion = 1\<rparr>,
      \<lparr>extensionName = ''VK_KHR_win32_surface'', specVersion = 1\<rparr>]"

subsection \<open>Observable events, the environment and the state\<close>

datatype dbg_class = TRACE | FIXME | ERR

datatype dbg_arg = ArgInt int | ArgPtr addr | ArgStr string | ArgLongLong "64 word"

text \<open>
  The event list records, newest first, every diagnostic, every call to the process
  heap, and every call that leaves the driver.
\<close>

datatype event =
    Dbg dbg_class string "dbg_arg list"
  | HeapAlloc nat addr
  | HeapFree addr
  | CreateClientWindow addr nat
  | Native_vkCreateInstance VkInstanceCreateInfo "cstr list"
  | Native_vkCreateXlibSurfaceKHR addr VkXlibSurfaceCreateInfoKHR
  | Native_vkDestroyInstance addr
  | Native_vkDestroySurfaceKHR addr "64 word"
  | Native_vkGetDeviceProcAddr addr string
  | Native_vkGetInstanceProcAddr addr string
  | Native_vkGetPhysicalDeviceXlibPresentationSupportKHR addr "32 word"

record env =
  WINE_VULKAN_DRIVER_VERSION :: "32 word"
  sizeof_ptr :: nat
  sizeof_wine_vk_surface :: nat
  heap_alloc_ret :: "nat \<Rightarrow> nat \<Rightarrow> addr"
  uninitialized_create_info :: VkInstanceCreateInfo
  GetAncestor_GA_PARENT :: "addr \<Rightarrow> addr"
  GetDesktopWindow :: addr
  create_client_window :: "addr \<Rightarrow> nat"
  gdi_display :: addr
  default_visual_visualid :: nat
  wine_dlopen :: addr
  wine_dlsym :: "addr \<Rightarrow> string \<Rightarrow> addr"
  native_vkCreateInstance :: "VkInstanceCreateInfo \<Rightarrow> cstr list \<Rightarrow> VkResult \<times> 64 word"
  native_vkCreateXlibSurfaceKHR :: "addr \<Rightarrow> VkXlibSurfaceCreateInfoKHR \<Rightarrow> VkResult \<times> 64 word"
  native_vkGetDeviceProcAddr :: "addr \<Rightarrow> string \<Rightarrow> addr"
  native_vkGetInstanceProcAddr :: "addr \<Rightarrow> string \<Rightarrow> addr"
  native_vkGetPhysicalDeviceXlibPresentationSupportKHR ::
    "addr \<Rightarrow> 32 word \<Rightarrow> addr \<Rightarrow> nat \<Rightarrow> 32 word"

text \<open>
  \<open>heap_alloc_ret env k n\<close> is what the process heap answers to the request for
  \<open>n\<close> bytes that follows \<open>k\<close> earlier requests: the address of the new block, or
  \<open>NULL\<close>. \<open>uninitialized_create_info\<close> is the indeterminate content of the
  automatic variable \<open>create_info_host\<close> of \<open>X11DRV_vkCreateInstance\<close>.
\<close>

record state =
  events :: "event list"
  allocated :: "addr \<rightharpoonup> nat"
  strings :: "addr \<Rightarrow> string"
  ptr_arrays :: "addr \<Rightarrow> int \<Rightarrow> cstr"
  wine_surfaces :: "addr \<Rightarrow> wine_vk_surface"
  mem64 :: "addr \<Rightarrow> 64 word"
  mem32 :: "addr \<Rightarrow> 32 word"
  ext_props :: "addr \<Rightarrow> nat \<Rightarrow> VkExtensionProperties"
  init_done :: bool
  vulkan_handle :: addr
  pvkCreateInstance :: addr
  pvkCreateXlibSurfaceKHR :: addr
  pvkDestroyInstance :: addr
  pvkDestroySurfaceKHR :: addr
  pvkGetDeviceProcAddr :: addr
  pvkGetInstanceProcAddr :: addr
  pvkGetPhysicalDeviceXlibPresentationSupportKHR :: addr

definition dbg :: "dbg_class \<Rightarrow> string \<Rightarrow> dbg_arg list \<Rightarrow> state \<Rightarrow> state" where
  "dbg c fmt args st = st\<lparr>events := Dbg c fmt args # events st\<rparr>"

definition emit :: "event \<Rightarrow> state \<Rightarrow> state" where
  "emit e st = st\<lparr>events := e # events st\<rparr>"

fun is_HeapAlloc :: "event \<Rightarrow> bool" where
  "is_HeapAlloc (HeapAlloc n a) = True"
| "is_HeapAlloc e = False"

fun is_Native_vkCreateXlibSurfaceKHR :: "event \<Rightarrow> bool" where
  "is_Native_vkCreateXlibSurfaceKHR (Native_vkCreateXlibSurfaceKHR i c) = True"
| "is_Native_vkCreateXlibSurfaceKHR e = False"

definition heap_alloc_calls :: "state \<Rightarrow> nat" where
  "heap_alloc_calls st = length (filter is_HeapAlloc (events st))"

definition surface_creation_calls :: "state \<Rightarrow> nat" where
  "surface_creation_calls st = length (filter is_Native_vkCreateXlibSurfaceKHR (events st))"

text \<open>
  Modelled from the spec: \<open>heap_alloc\<close> and \<open>heap_free\<close> (wine/heap.h) are not part of
  the file. An allocation either fails with \<open>NULL\<close> or adds a live block; a free
  removes the block that starts at the pointer (freeing \<open>NULL\<close> does nothing, and a
  pointer that starts no block removes none). Both calls are recorded as events.
\<close>

definition heap_alloc :: "env \<Rightarrow> nat \<Rightarrow> state \<Rightarrow> addr \<times> state" where
  "heap_alloc env len st =
     (let p = heap_alloc_ret env (heap_alloc_calls st) len
      in (p, st\<lparr>events := HeapAlloc len p # events st,
                 allocated := (if p = NULL then allocated st else (allocated st)(p \<mapsto> len))\<rparr>))"

definition heap_free :: "addr \<Rightarrow> state \<Rightarrow> state" where
  "heap_free p st =
     (if p = NULL then st
      else st\<lparr>events := HeapFree p # events st, allocated := (allocated st)(p := None)\<rparr>)"

definition c_str :: "state \<Rightarrow> cstr \<Rightarrow> string" where
  "c_str st s = (case s of Literal l \<Rightarrow> l | StrPtr a \<Rightarrow> strings st a)"

subsection \<open>wine_vk_instance_convert_create_info\<close>

text \<open>The walk over the \<open>pNext\<close> chain: one FIXME per node.\<close>

fun log_chain :: "wine_vk_structure_header option \<Rightarrow> state \<Rightarrow> state" where
  "log_chain None st = st"
| "log_chain (Some (Header t nxt)) st =
     log_chain nxt
       (dbg FIXME ''Application requested a linked structure of type %d'' [ArgInt (sint t)] st)"

text \<open>
  The loop that fills the new array: substitute the win32 surface name, else copy. The
  counter \<open>i\<close> is a C \<open>int\<close>: the loop test compares it as unsigned against the
  \<open>uint32_t\<close> count, the two arrays are indexed with its signed value, and \<open>i++\<close> wraps
  around as the machine's addition does (C leaves the overflow of a signed counter
  undefined).
\<close>

function ext_loop :: "VkInstanceCreateInfo \<Rightarrow> addr \<Rightarrow> 32 word \<Rightarrow> state \<Rightarrow> state" where
  "ext_loop src enabled_extensions i st =
     (if i < enabledExtensionCount src then
        ext_loop src enabled_extensions (i + 1)
          (if c_str st (ptr_arrays st (ppEnabledExtensionNames src) (sint i))
                = ''VK_KHR_win32_surface''
           then st\<lparr>ptr_arrays := (ptr_arrays st)
                  (enabled_extensions := (ptr_arrays st enabled_extensions)
                     (sint i := Literal ''VK_KHR_xlib_surface''))\<rparr>
           else st\<lparr>ptr_arrays := (ptr_arrays st)
                  (enabled_extensions := (ptr_arrays st enabled_extensions)
                     (sint i := ptr_arrays st (ppEnabledExtensionNames src) (sint i)))\<rparr>)
      else st)"
  by pat_completeness auto
termination
proof (relation "measure (\<lambda>(src, p, i, st). unat (enabledExtensionCount src) - unat i)")
  show "wf (measure (\<lambda>(src, p, i, st). unat (enabledExtensionCount src) - unat i))"
    by simp
next
  fix src :: VkInstanceCreateInfo and enabled_extensions :: addr and i :: "32 word"
    and st :: state
  assume "i < enabledExtensionCount src"
  then have "unat (enabledExtensionCount src) - unat (i + 1)
               < unat (enabledExtensionCount src) - unat i"
    by unat_arith
  then show "((src, enabled_extensions, i + 1,
          if c_str st (ptr_arrays st (ppEnabledExtensionNames src) (sint i))
                = ''VK_KHR_win32_surface''
          then st\<lparr>ptr_arrays := (ptr_arrays st)
                 (enabled_extensions := (ptr_arrays st enabled_extensions)
                    (sint i := Literal ''VK_KHR_xlib_surface''))\<rparr>
          else st\<lparr>ptr_arrays := (ptr_arrays st)
                 (enabled_extensions := (ptr_arrays st enabled_extensions)
                    (sint i := ptr_arrays st (ppEnabledExtensionNames src) (sint i)))\<rparr>),
         src, enabled_extensions, i, st)
        \<in> measure (\<lambda>(src, p, i, st). unat (enabledExtensionCount src) - unat i)"
    by simp
qed

declare ext_loop.simps [simp del]

definition wine_vk_instance_convert_create_info ::
  "env \<Rightarrow> VkInstanceCreateInfo \<Rightarrow> VkInstanceCreateInfo \<Rightarrow> state
     \<Rightarrow> VkResult \<times> VkInstanceCreateInfo \<times> state" where
  "wine_vk_instance_convert_create_info env src dst st =
     (let dst1 = dst\<lparr>sType := sType src, flags := flags src,
                     pApplicationInfo := pApplicationInfo src\<rparr>;
          st1 = (if pNext src \<noteq> None then log_chain (pNext src) st else st);
          dst2 = dst1\<lparr>pNext := None\<rparr>;
          dst3 = dst2\<lparr>enabledLayerCount := 0, ppEnabledLayerNames := NULL\<rparr>
      in if enabledExtensionCount src > 0 then
           (let (enabled_extensions, st2) =
                  heap_alloc env (unat (enabledExtensionCount src) * sizeof_ptr env) st1
            in if enabled_extensions = NULL then
                 (VK_ERROR_OUT_OF_HOST_MEMORY, dst3,
                  dbg ERR ''Failed to allocate memory for enabled extensions'' [] st2)
               else
                 (let st3 = ext_loop src enabled_extensions 0 st2;
                      dst4 = dst3\<lparr>ppEnabledExtensionNames := enabled_extensions\<rparr>
                  in (VK_SUCCESS,
                      dst4\<lparr>enabledExtensionCount := enabledExtensionCount src\<rparr>, st3)))
         else
           (VK_SUCCESS, dst3\<lparr>enabledExtensionCount := enabledExtensionCount src\<rparr>, st1))"

subsection \<open>The entry points of the driver\<close>

text \<open>
  Structures that a function receives by pointer and only reads are passed by value;
  their addresses, which only the TRACE lines print, are left out of those lines.
\<close>

definition X11DRV_vkAcquireNextImageKHR ::
  "addr \<Rightarrow> 64 word \<Rightarrow> 64 word \<Rightarrow> 64 word \<Rightarrow> 64 word \<Rightarrow> addr \<Rightarrow> state
     \<Rightarrow> VkResult \<times> state" where
  "X11DRV_vkAcquireNextImageKHR device swapchain timeout semaphore fence index st =
     (VK_ERROR_OUT_OF_HOST_MEMORY,
      dbg FIXME ''stub: %p, 0x%s, 0x%s, 0x%s, 0x%s, %p''
        [ArgPtr device, ArgLongLong swapchain, ArgLongLong timeout, ArgLongLong semaphore,
         ArgLongLong fence, ArgPtr index] st)"

definition X11DRV_vkCreateInstance ::
  "env \<Rightarrow> VkInstanceCreateInfo \<Rightarrow> addr \<Rightarrow> addr \<Rightarrow> state \<Rightarrow> VkResult \<times> state" where
  "X11DRV_vkCreateInstance env create_info allocator instance st =
     (let st1 = dbg TRACE ''create_info %p, allocator %p, instance %p''
                  [ArgPtr allocator, ArgPtr instance] st;
          st2 = (if allocator \<noteq> NULL
                 then dbg FIXME ''Support for allocation callbacks not implemented yet'' [] st1
                 else st1);
          (res, create_info_host, st3) =
             wine_vk_instance_convert_create_info env create_info
               (uninitialized_create_info env) st2
      in if res \<noteq> VK_SUCCESS then
           (res, dbg ERR ''Failed to convert instance create info, res=%d'' [ArgInt res] st3)
         else
           (let names = map (\<lambda>k. ptr_arrays st3 (ppEnabledExtensionNames create_info_host)
                                       (int k))
                          [0 ..< unat (enabledExtensionCount create_info_host)];
                (res', inst) = native_vkCreateInstance env create_info_host names;
                st4 = emit (Native_vkCreateInstance create_info_host names)
                        (st3\<lparr>mem64 := (mem64 st3)(instance := inst)\<rparr>);
                st5 = (if ppEnabledExtensionNames create_info_host \<noteq> NULL
                       then heap_free (ppEnabledExtensionNames create_info_host) st4
                       else st4)
            in (res', st5)))"

definition X11DRV_vkCreateSwapchainKHR ::
  "addr \<Rightarrow> addr \<Rightarrow> addr \<Rightarrow> addr \<Rightarrow> state \<Rightarrow> VkResult \<times> state" where
  "X11DRV_vkCreateSwapchainKHR device create_info allocator swapchain st =
     (VK_ERROR_OUT_OF_HOST_MEMORY,
      dbg FIXME ''stub: %p %p %p %p''
        [ArgPtr device, ArgPtr create_info, ArgPtr allocator, ArgPtr swapchain] st)"

definition X11DRV_vkCreateWin32SurfaceKHR ::
  "env \<Rightarrow> addr \<Rightarrow> VkWin32SurfaceCreateInfoKHR \<Rightarrow> addr \<Rightarrow> addr \<Rightarrow> state
     \<Rightarrow> VkResult \<times> state" where
  "X11DRV_vkCreateWin32SurfaceKHR env instance create_info allocator surface st =
     (let st1 = dbg TRACE ''%p %p %p %p'' [ArgPtr instance, ArgPtr allocator, ArgPtr surface] st;
          st2 = (if allocator \<noteq> NULL
                 then dbg FIXME ''Support for allocation callbacks not implemented yet'' [] st1
                 else st1)
      in if GetAncestor_GA_PARENT env (hwnd create_info) \<noteq> GetDesktopWindow env then
           (VK_ERROR_INCOMPATIBLE_DRIVER,
            dbg FIXME
              ''Application requires child window rendering, which is not implemented yet!''
              [] st2)
         else
           (let win = create_client_window env (hwnd create_info);
                st3 = emit (CreateClientWindow (hwnd create_info) win) st2
            in if win = 0 then (VK_ERROR_OUT_OF_HOST_MEMORY, st3)
               else
                 (let (x11_surface, st4) = heap_alloc env (sizeof_wine_vk_surface env) st3
                  in if x11_surface = NULL then (VK_ERROR_OUT_OF_HOST_MEMORY, st4)
                     else
                       (let st5 = st4\<lparr>wine_surfaces := (wine_surfaces st4)
                                     (x11_surface :=
                                        (wine_surfaces st4 x11_surface)\<lparr>surf_window := win\<rparr>)\<rparr>;
                            create_info_host =
                              \<lparr>xlib_sType = VK_STRUCTURE_TYPE_XLIB_SURFACE_CREATE_INFO_KHR,
                               xlib_pNext = NULL, xlib_flags = 0, dpy = gdi_display env,
                               xlib_window = surf_window (wine_surfaces st5 x11_surface)\<rparr>;
                            (res, native_surface) =
                               native_vkCreateXlibSurfaceKHR env instance create_info_host;
                            st6 = emit (Native_vkCreateXlibSurfaceKHR instance create_info_host)
                                    (st5\<lparr>wine_surfaces := (wine_surfaces st5)
                                       (x11_surface := (wine_surfaces st5 x11_surface)
                                          \<lparr>surf_surface := native_surface\<rparr>)\<rparr>)
                        in if res \<noteq> VK_SUCCESS then (res, heap_free surface st6)
                           else
                             (let st7 = st6\<lparr>mem64 := (mem64 st6)
                                           (surface := of_nat x11_surface)\<rparr>
                              in (VK_SUCCESS,
                                  dbg TRACE ''Created surface=0x%s''
                                    [ArgLongLong (mem64 st7 surface)] st7))))))"

definition X11DRV_vkDestroyInstance :: "addr \<Rightarrow> addr \<Rightarrow> state \<Rightarrow> state" where
  "X11DRV_vkDestroyInstance instance allocator st =
     (let st1 = dbg TRACE ''%p %p'' [ArgPtr instance, ArgPtr allocator] st;
          st2 = (if allocator \<noteq> NULL
                 then dbg FIXME ''Support for allocation callbacks not implemented yet'' [] st1
                 else st1)
      in emit (Native_vkDestroyInstance instance) st2)"

definition SURFACE_FROM_HANDLE :: "64 word \<Rightarrow> addr" where
  "SURFACE_FROM_HANDLE surface = unat surface"

definition X11DRV_vkDestroySurfaceKHR :: "addr \<Rightarrow> 64 word \<Rightarrow> addr \<Rightarrow> state \<Rightarrow> state" where
  "X11DRV_vkDestroySurfaceKHR instance surface allocator st =
     (let x11_surface = SURFACE_FROM_HANDLE surface;
          st1 = dbg TRACE ''%p 0x%s %p''
                  [ArgPtr instance, ArgLongLong surface, ArgPtr allocator] st;
          st2 = (if allocator \<noteq> NULL
                 then dbg FIXME ''Support for allocation callbacks not implemented yet'' [] st1
                 else st1);
          st3 = emit (Native_vkDestroySurfaceKHR instance
                        (surf_surface (wine_surfaces st2 x11_surface))) st2
      in heap_free x11_surface st3)"

definition X11DRV_vkDestroySwapchainKHR :: "addr \<Rightarrow> 64 word \<Rightarrow> addr \<Rightarrow> state \<Rightarrow> state" where
  "X11DRV_vkDestroySwapchainKHR device swapchain allocator st =
     dbg FIXME ''stub: %p, 0x%s %p''
       [ArgPtr device, ArgLongLong swapchain, ArgPtr allocator] st"

function copy_properties :: "addr \<Rightarrow> nat \<Rightarrow> nat \<Rightarrow> state \<Rightarrow> state" where
  "copy_properties properties num_copies i st =
     (if i < num_copies then
        copy_properties properties num_copies (Suc i)
          (st\<lparr>ext_props := (ext_props st)
             (properties := (ext_props st properties)
                (i := winex11_vk_instance_extensions ! i))\<rparr>)
      else st)"
  by pat_completeness auto
termination
  by (relation "measure (\<lambda>(p, n, i, st). n - i)") auto

declare copy_properties.simps [simp del]

definition X11DRV_vkEnumerateInstanceExtensionProperties ::
  "addr \<Rightarrow> addr \<Rightarrow> addr \<Rightarrow> state \<Rightarrow> VkResult \<times> state" where
  "X11DRV_vkEnumerateInstanceExtensionProperties layer_name count properties st =
     (let st1 = dbg TRACE ''layer_name %p, count %p, properties %p''
                  [ArgPtr layer_name, ArgPtr count, ArgPtr properties] st
      in if layer_name \<noteq> NULL then
           (VK_ERROR_LAYER_NOT_PRESENT,
            dbg ERR ''Layer enumeration not supported from ICD.'' [] st1)
         else if properties = NULL then
           (VK_SUCCESS,
            st1\<lparr>mem32 := (mem32 st1)
               (count := of_nat (length winex11_vk_instance_extensions))\<rparr>)
         else
           (let (num_copies, res) =
                  (if unat (mem32 st1 count) < length winex11_vk_instance_extensions
                   then (unat (mem32 st1 count), VK_INCOMPLETE)
                   else (length winex11_vk_instance_extensions, VK_SUCCESS));
                st2 = copy_properties properties num_copies 0 st1
            in (res,
                dbg TRACE ''Result %d, extensions copied %d''
                  [ArgInt res, ArgInt (int num_copies)] st2)))"

definition X11DRV_vkGetDeviceProcAddr :: "env \<Rightarrow> addr \<Rightarrow> cstr \<Rightarrow> state \<Rightarrow> addr \<times> state" where
  "X11DRV_vkGetDeviceProcAddr env device name st =
     (let st1 = dbg TRACE ''%p, %s'' [ArgPtr device, ArgStr (c_str st name)] st
      in (native_vkGetDeviceProcAddr env device (c_str st1 name),
          emit (Native_vkGetDeviceProcAddr device (c_str st1 name)) st1))"

definition X11DRV_vkGetInstanceProcAddr :: "env \<Rightarrow> addr \<Rightarrow> cstr \<Rightarrow> state \<Rightarrow> addr \<times> state" where
  "X11DRV_vkGetInstanceProcAddr env instance name st =
     (let st1 = dbg TRACE ''%p, %s'' [ArgPtr instance, ArgStr (c_str st name)] st
      in (native_vkGetInstanceProcAddr env instance (c_str st1 name),
          emit (Native_vkGetInstanceProcAddr instance (c_str st1 name)) st1))"

definition X11DRV_vkGetPhysicalDeviceSurfaceCapabilitiesKHR ::
  "addr \<Rightarrow> 64 word \<Rightarrow> addr \<Rightarrow> state \<Rightarrow> VkResult \<times> state" where
  "X11DRV_vkGetPhysicalDeviceSurfaceCapabilitiesKHR phys_dev surface capabilities st =
     (VK_ERROR_OUT_OF_HOST_MEMORY,
      dbg FIXME ''stub: %p, 0x%s, %p''
        [ArgPtr phys_dev, ArgLongLong surface, ArgPtr capabilities] st)"

definition X11DRV_vkGetPhysicalDeviceSurfaceFormatsKHR ::
  "addr \<Rightarrow> 64 word \<Rightarrow> addr \<Rightarrow> addr \<Rightarrow> state \<Rightarrow> VkResult \<times> state" where
  "X11DRV_vkGetPhysicalDeviceSurfaceFormatsKHR phys_dev surface count formats st =
     (VK_ERROR_OUT_OF_HOST_MEMORY,
      dbg FIXME ''stub: %p, 0x%s, %p, %p''
        [ArgPtr phys_dev, ArgLongLong surface, ArgPtr count, ArgPtr formats] st)"

definition X11DRV_vkGetPhysicalDeviceSurfacePresentModesKHR ::
  "addr \<Rightarrow> 64 word \<Rightarrow> addr \<Rightarrow> addr \<Rightarrow> state \<Rightarrow> VkResult \<times> state" where
  "X11DRV_vkGetPhysicalDeviceSurfacePresentModesKHR phys_dev surface count modes st =
     (VK_ERROR_OUT_OF_HOST_MEMORY,
      dbg FIXME ''stub: %p, 0x%s, %p, %p''
        [ArgPtr phys_dev, ArgLongLong surface, ArgPtr count, ArgPtr modes] st)"

definition X11DRV_vkGetPhysicalDeviceSurfaceSupportKHR ::
  "addr \<Rightarrow> 32 word \<Rightarrow> 64 word \<Rightarrow> addr \<Rightarrow> state \<Rightarrow> VkResult \<times> state" where
  "X11DRV_vkGetPhysicalDeviceSurfaceSupportKHR phys_dev index surface supported st =
     (VK_ERROR_OUT_OF_HOST_MEMORY,
      dbg FIXME ''stub: %p, %u, 0x%s, %p''
        [ArgPtr phys_dev, ArgInt (uint index), ArgLongLong surface, ArgPtr supported] st)"

definition X11DRV_vkGetPhysicalDeviceWin32PresentationSupportKHR ::
  "env \<Rightarrow> addr \<Rightarrow> 32 word \<Rightarrow> state \<Rightarrow> 32 word \<times> state" where
  "X11DRV_vkGetPhysicalDeviceWin32PresentationSupportKHR env phys_dev index st =
     (let st1 = dbg TRACE ''%p %u'' [ArgPtr phys_dev, ArgInt (uint index)] st
      in (native_vkGetPhysicalDeviceXlibPresentationSupportKHR env phys_dev index
            (gdi_display env) (default_visual_visualid env),
          emit (Native_vkGetPhysicalDeviceXlibPresentationSupportKHR phys_dev index) st1))"

definition X11DRV_vkGetSwapchainImagesKHR ::
  "addr \<Rightarrow> 64 word \<Rightarrow> addr \<Rightarrow> addr \<Rightarrow> state \<Rightarrow> VkResult \<times> state" where
  "X11DRV_vkGetSwapchainImagesKHR device swapchain count images st =
     (VK_ERROR_OUT_OF_HOST_MEMORY,
      dbg FIXME ''stub: %p, 0x%s %p %p''
        [ArgPtr device, ArgLongLong swapchain, ArgPtr count, ArgPtr images] st)"

definition X11DRV_vkQueuePresentKHR :: "addr \<Rightarrow> addr \<Rightarrow> state \<Rightarrow> VkResult \<times> state" where
  "X11DRV_vkQueuePresentKHR queue present_info st =
     (VK_ERROR_OUT_OF_HOST_MEMORY,
      dbg FIXME ''stub: %p, %p'' [ArgPtr queue, ArgPtr present_info] st)"

subsection \<open>The function table and the plugin entry point\<close>

text \<open>
  Modelled from the spec: the declaration of \<open>struct vulkan_funcs\<close>
  (wine/vulkan_driver.h) is not part of the file. The specification describes it as a
  fixed table of function pointers, one per supported API entry point, so the record has
  one member for each initialiser of the table, in the initialiser's order. \<open>None\<close> is a
  null function pointer. \<open>WINE_VULKAN_DRIVER_VERSION\<close>, a macro of the same header, is a
  parameter of the environment.
\<close>

record vulkan_funcs_t =
  p_vkAcquireNextImageKHR ::
    "(addr \<Rightarrow> 64 word \<Rightarrow> 64 word \<Rightarrow> 64 word \<Rightarrow> 64 word \<Rightarrow> addr \<Rightarrow> state
        \<Rightarrow> VkResult \<times> state) option"
  p_vkCreateInstance ::
    "(env \<Rightarrow> VkInstanceCreateInfo \<Rightarrow> addr \<Rightarrow> addr \<Rightarrow> state \<Rightarrow> VkResult \<times> state) option"
  p_vkCreateSwapchainKHR ::
    "(addr \<Rightarrow> addr \<Rightarrow> addr \<Rightarrow> addr \<Rightarrow> state \<Rightarrow> VkResult \<times> state) option"
  p_vkCreateWin32SurfaceKHR ::
    "(env \<Rightarrow> addr \<Rightarrow> VkWin32SurfaceCreateInfoKHR \<Rightarrow> addr \<Rightarrow> addr \<Rightarrow> state
        \<Rightarrow> VkResult \<times> state) option"
  p_vkDestroyInstance :: "(addr \<Rightarrow> addr \<Rightarrow> state \<Rightarrow> state) option"
  p_vkDestroySurfaceKHR :: "(addr \<Rightarrow> 64 word \<Rightarrow> addr \<Rightarrow> state \<Rightarrow> state) option"
  p_vkDestroySwapchainKHR :: "(addr \<Rightarrow> 64 word \<Rightarrow> addr \<Rightarrow> state \<Rightarrow> state) option"
  p_vkEnumerateInstanceExtensionProperties ::
    "(addr \<Rightarrow> addr \<Rightarrow> addr \<Rightarrow> state \<Rightarrow> VkResult \<times> state) option"
  p_vkGetDeviceProcAddr :: "(env \<Rightarrow> addr \<Rightarrow> cstr \<Rightarrow> state \<Rightarrow> addr \<times> state) option"
  p_vkGetInstanceProcAddr :: "(env \<Rightarrow> addr \<Rightarrow> cstr \<Rightarrow> state \<Rightarrow> addr \<times> state) option"
  p_vkGetPhysicalDeviceSurfaceCapabilitiesKHR ::
    "(addr \<Rightarrow> 64 word \<Rightarrow> addr \<Rightarrow> state \<Rightarrow> VkResult \<times> state) option"
  p_vkGetPhysicalDeviceSurfaceFormatsKHR ::
    "(addr \<Rightarrow> 64 word \<Rightarrow> addr \<Rightarrow> addr \<Rightarrow> state \<Rightarrow> VkResult \<times> state) option"
  p_vkGetPhysicalDeviceSurfacePresentModesKHR ::
    "(addr \<Rightarrow> 64 word \<Rightarrow> addr \<Rightarrow> addr \<Rightarrow> state \<Rightarrow> VkResult \<times> state) option"
  p_vkGetPhysicalDeviceSurfaceSupportKHR ::
    "(addr \<Rightarrow> 32 word \<Rightarrow> 64 word \<Rightarrow> addr \<Rightarrow> state \<Rightarrow> VkResult \<times> state) option"
  p_vkGetPhysicalDeviceWin32PresentationSupportKHR ::
    "(env \<Rightarrow> addr \<Rightarrow> 32 word \<Rightarrow> state \<Rightarrow> 32 word \<times> state) option"
  p_vkGetSwapchainImagesKHR ::
    "(addr \<Rightarrow> 64 word \<Rightarrow> addr \<Rightarrow> addr \<Rightarrow> state \<Rightarrow> VkResult \<times> state) option"
  p_vkQueuePresentKHR :: "(addr \<Rightarrow> addr \<Rightarrow> state \<Rightarrow> VkResult \<times> state) option"

definition vulkan_funcs :: vulkan_funcs_t where
  "vulkan_funcs =
     \<lparr>p_vkAcquireNextImageKHR = Some X11DRV_vkAcquireNextImageKHR,
      p_vkCreateInstance = Some X11DRV_vkCreateInstance,
      p_vkCreateSwapchainKHR = Some X11DRV_vkCreateSwapchainKHR,
      p_vkCreateWin32SurfaceKHR = Some X11DRV_vkCreateWin32SurfaceKHR,
      p_vkDestroyInstance = Some X11DRV_vkDestroyInstance,
      p_vkDestroySurfaceKHR = Some X11DRV_vkDestroySurfaceKHR,
      p_vkDestroySwapchainKHR = Some X11DRV_vkDestroySwapchainKHR,
      p_vkEnumerateInstanceExtensionProperties =
        Some X11DRV_vkEnumerateInstanceExtensionProperties,
      p_vkGetDeviceProcAddr = Some X11DRV_vkGetDeviceProcAddr,
      p_vkGetInstanceProcAddr = Some X11DRV_vkGetInstanceProcAddr,
      p_vkGetPhysicalDeviceSurfaceCapabilitiesKHR =
        Some X11DRV_vkGetPhysicalDeviceSurfaceCapabilitiesKHR,
      p_vkGetPhysicalDeviceSurfaceFormatsKHR =
        Some X11DRV_vkGetPhysicalDeviceSurfaceFormatsKHR,
      p_vkGetPhysicalDeviceSurfacePresentModesKHR =
        Some X11DRV_vkGetPhysicalDeviceSurfacePresentModesKHR,
      p_vkGetPhysicalDeviceSurfaceSupportKHR =
        Some X11DRV_vkGetPhysicalDeviceSurfaceSupportKHR,
      p_vkGetPhysicalDeviceWin32PresentationSupportKHR =
        Some X11DRV_vkGetPhysicalDeviceWin32PresentationSupportKHR,
      p_vkGetSwapchainImagesKHR = Some X11DRV_vkGetSwapchainImagesKHR,
      p_vkQueuePresentKHR = Some X11DRV_vkQueuePresentKHR\<rparr>"

text \<open>
  \<open>wine_vk_init\<close>: the two function-local statics \<open>init_done\<close> and \<open>vulkan_handle\<close>
  and the seven file-level function pointers are fields of the state. Each
  \<open>LOAD_FUNCPTR\<close> stores what \<open>wine_dlsym\<close> returns and leaves the function with
  \<open>FALSE\<close> when that is null.
\<close>

definition wine_vk_init :: "env \<Rightarrow> state \<Rightarrow> bool \<times> state" where
  "wine_vk_init env st =
     (if init_done st then (vulkan_handle st \<noteq> NULL, st)
      else
        (let st0 = st\<lparr>init_done := True\<rparr>;
             st1 = st0\<lparr>vulkan_handle := wine_dlopen env\<rparr>
         in if vulkan_handle st1 = NULL then (False, st1)
            else
        (let st2 = st1\<lparr>pvkCreateInstance :=
                     wine_dlsym env (vulkan_handle st1) ''vkCreateInstance''\<rparr>
         in if pvkCreateInstance st2 = NULL then (False, st2)
            else
        (let st3 = st2\<lparr>pvkCreateXlibSurfaceKHR :=
                     wine_dlsym env (vulkan_handle st2) ''vkCreateXlibSurfaceKHR''\<rparr>
         in if pvkCreateXlibSurfaceKHR st3 = NULL then (False, st3)
            else
        (let st4 = st3\<lparr>pvkDestroyInstance :=
                     wine_dlsym env (vulkan_handle st3) ''vkDestroyInstance''\<rparr>
         in if pvkDestroyInstance st4 = NULL then (False, st4)
            else
        (let st5 = st4\<lparr>pvkDestroySurfaceKHR :=
                     wine_dlsym env (vulkan_handle st4) ''vkDestroySurfaceKHR''\<rparr>
         in if pvkDestroySurfaceKHR st5 = NULL then (False, st5)
            else
        (let st6 = st5\<lparr>pvkGetDeviceProcAddr :=
                     wine_dlsym env (vulkan_handle st5) ''vkGetDeviceProcAddr''\<rparr>
         in if pvkGetDeviceProcAddr st6 = NULL then (False, st6)
            else
        (let st7 = st6\<lparr>pvkGetInstanceProcAddr :=
                     wine_dlsym env (vulkan_handle st6) ''vkGetInstanceProcAddr''\<rparr>
         in if pvkGetInstanceProcAddr st7 = NULL then (False, st7)
            else
        (let st8 = st7\<lparr>pvkGetPhysicalDeviceXlibPresentationSupportKHR :=
                     wine_dlsym env (vulkan_handle st7)
                       ''vkGetPhysicalDeviceXlibPresentationSupportKHR''\<rparr>
         in if pvkGetPhysicalDeviceXlibPresentationSupportKHR st8 = NULL then (False, st8)
            else (True, st8))))))))))"

definition get_vulkan_driver :: "env \<Rightarrow> 32 word \<Rightarrow> state \<Rightarrow> vulkan_funcs_t option \<times> state" where
  "get_vulkan_driver env version st =
     (if version \<noteq> WINE_VULKAN_DRIVER_VERSION env then
        (None,
         dbg ERR ''version mismatch, vulkan wants %u but driver has %u''
           [ArgInt (uint version), ArgInt (uint (WINE_VULKAN_DRIVER_VERSION env))] st)
      else
        (let (ok, st1) = wine_vk_init env st
         in if ok then (Some vulkan_funcs, st1) else (None, st1)))"

text \<open>
  A caller that invokes one of the nine unimplemented entry points through the table.
  The C return value is either a \<open>VkResult\<close> or nothing (\<open>void\<close>); a call through a
  null entry is the third outcome.
\<close>

datatype retval = RetVoid | RetVkResult VkResult | NullCall

datatype unimplemented_call =
    Call_vkAcquireNextImageKHR addr "64 word" "64 word" "64 word" "64 word" addr
  | Call_vkCreateSwapchainKHR addr addr addr addr
  | Call_vkDestroySwapchainKHR addr "64 word" addr
  | Call_vkGetPhysicalDeviceSurfaceCapabilitiesKHR addr "64 word" addr
  | Call_vkGetPhysicalDeviceSurfaceFormatsKHR addr "64 word" addr addr
  | Call_vkGetPhysicalDeviceSurfacePresentModesKHR addr "64 word" addr addr
  | Call_vkGetPhysicalDeviceSurfaceSupportKHR addr "32 word" "64 word" addr
  | Call_vkGetSwapchainImagesKHR addr "64 word" addr addr
  | Call_vkQueuePresentKHR addr addr

definition returning :: "(VkResult \<times> state) option \<Rightarrow> state \<Rightarrow> retval \<times> state" where
  "returning r st = (case r of None \<Rightarrow> (NullCall, st) | Some (res, st') \<Rightarrow> (RetVkResult res, st'))"

fun call_unimplemented :: "vulkan_funcs_t \<Rightarrow> unimplemented_call \<Rightarrow> state \<Rightarrow> retval \<times> state" where
  "call_unimplemented funcs (Call_vkAcquireNextImageKHR device swapchain timeout semaphore fence index) st =
     returning (map_option (\<lambda>f. f device swapchain timeout semaphore fence index st)
                  (p_vkAcquireNextImageKHR funcs)) st"
| "call_unimplemented funcs (Call_vkCreateSwapchainKHR device create_info allocator swapchain) st =
     returning (map_option (\<lambda>f. f device create_info allocator swapchain st)
                  (p_vkCreateSwapchainKHR funcs)) st"
| "call_unimplemented funcs (Call_vkDestroySwapchainKHR device swapchain allocator) st =
     (case p_vkDestroySwapchainKHR funcs of
        None \<Rightarrow> (NullCall, st)
      | Some f \<Rightarrow> (RetVoid, f device swapchain allocator st))"
| "call_unimplemented funcs (Call_vkGetPhysicalDeviceSurfaceCapabilitiesKHR phys_dev surface capabilities) st =
     returning (map_option (\<lambda>f. f phys_dev surface capabilities st)
                  (p_vkGetPhysicalDeviceSurfaceCapabilitiesKHR funcs)) st"
| "call_unimplemented funcs (Call_vkGetPhysicalDeviceSurfaceFormatsKHR phys_dev surface count formats) st =
     returning (map_option (\<lambda>f. f phys_dev surface count formats st)
                  (p_vkGetPhysicalDeviceSurfaceFormatsKHR funcs)) st"
| "call_unimplemented funcs (Call_vkGetPhysicalDeviceSurfacePresentModesKHR phys_dev surface count modes) st =
     returning (map_option (\<lambda>f. f phys_dev surface count modes st)
                  (p_vkGetPhysicalDeviceSurfacePresentModesKHR funcs)) st"
| "call_unimplemented funcs (Call_vkGetPhysicalDeviceSurfaceSupportKHR phys_dev index surface supported) st =
     returning (map_option (\<lambda>f. f phys_dev index surface supported st)
                  (p_vkGetPhysicalDeviceSurfaceSupportKHR funcs)) st"
| "call_unimplemented funcs (Call_vkGetSwapchainImagesKHR device swapchain count images) st =
     returning (map_option (\<lambda>f. f device swapchain count images st)
                  (p_vkGetSwapchainImagesKHR funcs)) st"
| "call_unimplemented funcs (Call_vkQueuePresentKHR queue present_info) st =
     returning (map_option (\<lambda>f. f queue present_info st) (p_vkQueuePresentKHR funcs)) st"

definition all_entries_present :: "vulkan_funcs_t \<Rightarrow> bool" where
  "all_entries_present funcs =
     (p_vkAcquireNextImageKHR funcs \<noteq> None
      \<and> p_vkCreateInstance funcs \<noteq> None
      \<and> p_vkCreateSwapchainKHR funcs \<noteq> None
      \<and> p_vkCreateWin32SurfaceKHR funcs \<noteq> None
      \<and> p_vkDestroyInstance funcs \<noteq> None
      \<and> p_vkDestroySurfaceKHR funcs \<noteq> None
      \<and> p_vkDestroySwapchainKHR funcs \<noteq> None
      \<and> p_vkEnumerateInstanceExtensionProperties funcs \<noteq> None
      \<and> p_vkGetDeviceProcAddr funcs \<noteq> None
      \<and> p_vkGetInstanceProcAddr funcs \<noteq> None
      \<and> p_vkGetPhysicalDeviceSurfaceCapabilitiesKHR funcs \<noteq> None
      \<and> p_vkGetPhysicalDeviceSurfaceFormatsKHR funcs \<noteq> None
      \<and> p_vkGetPhysicalDeviceSurfacePresentModesKHR funcs \<noteq> None
      \<and> p_vkGetPhysicalDeviceSurfaceSupportKHR funcs \<noteq> None
      \<and> p_vkGetPhysicalDeviceWin32PresentationSupportKHR funcs \<noteq> None
      \<and> p_vkGetSwapchainImagesKHR funcs \<noteq> None
      \<and> p_vkQueuePresentKHR funcs \<noteq> None)"

subsection \<open>Notions used to state the properties\<close>

text \<open>The type tags of the nodes of a chain, in chain order.\<close>

fun chain_tags :: "wine_vk_structure_header option \<Rightarrow> 32 word list" where
  "chain_tags None = []"
| "chain_tags (Some (Header t nxt)) = t # chain_tags nxt"

fun is_linked_structure_fixme :: "event \<Rightarrow> bool" where
  "is_linked_structure_fixme (Dbg c fmt args) =
     (c = FIXME \<and> fmt = ''Application requested a linked structure of type %d'')"
| "is_linked_structure_fixme e = False"

definition linked_structure_fixmes :: "state \<Rightarrow> event list" where
  "linked_structure_fixmes st = filter is_linked_structure_fixme (events st)"

text \<open>The first \<open>n\<close> entries of the array of string pointers at address \<open>p\<close>.\<close>

definition read_array :: "state \<Rightarrow> addr \<Rightarrow> nat \<Rightarrow> cstr list" where
  "read_array st p n = map (\<lambda>k. ptr_arrays st p (int k)) [0 ..< n]"

text \<open>
  The substitution table in the words of the specification: the win32 surface name maps
  to the xlib surface name, every other name is passed through as the same pointer.
\<close>

definition spec_translate_name :: "state \<Rightarrow> cstr \<Rightarrow> cstr" where
  "spec_translate_name st s =
     (if c_str st s = ''VK_KHR_win32_surface'' then Literal ''VK_KHR_xlib_surface'' else s)"

text \<open>
  Initialisation succeeds when the library opens and all seven entry points resolve.
\<close>

definition backend_resolves :: "env \<Rightarrow> bool" where
  "backend_resolves env =
     (wine_dlopen env \<noteq> NULL
      \<and> wine_dlsym env (wine_dlopen env) ''vkCreateInstance'' \<noteq> NULL
      \<and> wine_dlsym env (wine_dlopen env) ''vkCreateXlibSurfaceKHR'' \<noteq> NULL
      \<and> wine_dlsym env (wine_dlopen env) ''vkDestroyInstance'' \<noteq> NULL
      \<and> wine_dlsym env (wine_dlopen env) ''vkDestroySurfaceKHR'' \<noteq> NULL
      \<and> wine_dlsym env (wine_dlopen env) ''vkGetDeviceProcAddr'' \<noteq> NULL
      \<and> wine_dlsym env (wine_dlopen env) ''vkGetInstanceProcAddr'' \<noteq> NULL
      \<and> wine_dlsym env (wine_dlopen env) ''vkGetPhysicalDeviceXlibPresentationSupportKHR''
            \<noteq> NULL)"

subsection \<open>Concrete inputs\<close>

text \<open>
  A process in which nothing has run yet: no events, an empty heap, the statics zeroed.
  Address 400 holds an array of three names, the win32 surface name twice.
\<close>

definition example_state :: state where
  "example_state =
     \<lparr>events = [], allocated = Map.empty,
      strings = (\<lambda>a. if a = 300 then ''VK_KHR_win32_surface''
                      else if a = 301 then ''VK_KHR_surface'' else []),
      ptr_arrays = (\<lambda>a i. if a = 400 \<and> i = 0 then StrPtr 301
                           else if a = 400 \<and> 0 < i \<and> i < 3 then StrPtr 300
                           else StrPtr 0),
      wine_surfaces = (\<lambda>a. \<lparr>surf_window = 0, surf_surface = 0\<rparr>),
      mem64 = (\<lambda>a. 0), mem32 = (\<lambda>a. 0),
      ext_props = (\<lambda>a i. \<lparr>extensionName = [], specVersion = 0\<rparr>),
      init_done = False, vulkan_handle = NULL,
      pvkCreateInstance = NULL, pvkCreateXlibSurfaceKHR = NULL, pvkDestroyInstance = NULL,
      pvkDestroySurfaceKHR = NULL, pvkGetDeviceProcAddr = NULL, pvkGetInstanceProcAddr = NULL,
      pvkGetPhysicalDeviceXlibPresentationSupportKHR = NULL\<rparr>"

text \<open>
  An environment whose heap always has room, whose native library opens but lacks
  \<open>vkCreateXlibSurfaceKHR\<close>, and whose native surface creation answers
  \<open>VK_ERROR_INITIALIZATION_FAILED\<close> (\<open>-3\<close>). Window 200 is a child of window 100; every
  other window is a child of the desktop window 1.
\<close>

definition example_env :: env where
  "example_env =
     \<lparr>WINE_VULKAN_DRIVER_VERSION = 1, sizeof_ptr = 8, sizeof_wine_vk_surface = 16,
      heap_alloc_ret = (\<lambda>k n. 4096 + 256 * k),
      uninitialized_create_info =
        \<lparr>sType = 3435973836, pNext = None, flags = 3435973836, pApplicationInfo = 3435973836,
         enabledLayerCount = 3435973836, ppEnabledLayerNames = 3435973836,
         enabledExtensionCount = 3435973836, ppEnabledExtensionNames = 3735928559\<rparr>,
      GetAncestor_GA_PARENT = (\<lambda>h. if h = 200 then 100 else 1),
      GetDesktopWindow = 1,
      create_client_window = (\<lambda>h. 5000 + h),
      gdi_display = 7000, default_visual_visualid = 33,
      wine_dlopen = 8000,
      wine_dlsym = (\<lambda>h name. if name = ''vkCreateXlibSurfaceKHR'' then NULL else 9000),
      native_vkCreateInstance = (\<lambda>ci names. (VK_SUCCESS, 1)),
      native_vkCreateXlibSurfaceKHR = (\<lambda>i ci. (- 3, 0)),
      native_vkGetDeviceProcAddr = (\<lambda>d n. NULL),
      native_vkGetInstanceProcAddr = (\<lambda>i n. NULL),
      native_vkGetPhysicalDeviceXlibPresentationSupportKHR = (\<lambda>p i d v. 1)\<rparr>"

text \<open>
  The same process at a moment when the address held by the uninitialised
  \<open>create_info_host\<close> is the start of a live block that belongs to another owner.
\<close>

definition example_state_stale :: state where
  "example_state_stale = example_state\<lparr>allocated := [3735928559 \<mapsto> 24]\<rparr>"

definition example_env_oom :: env where
  "example_env_oom = example_env\<lparr>heap_alloc_ret := (\<lambda>k n. NULL)\<rparr>"

definition example_create_info :: VkInstanceCreateInfo where
  "example_create_info =
     \<lparr>sType = 1, pNext = Some (Header 1000011000 (Some (Header 47 None))), flags = 0,
      pApplicationInfo = 500, enabledLayerCount = 1, ppEnabledLayerNames = 450,
      enabledExtensionCount = 3, ppEnabledExtensionNames = 400\<rparr>"

text \<open>
  A descriptor with \<open>2^31 + 1\<close> extension names, every one of them the win32 surface
  name, in a process whose memory holds that array at address 400 (indices 0 to
  \<open>2^31\<close>); the cells before the array hold other data.
\<close>

definition example_state_huge :: state where
  "example_state_huge =
     example_state\<lparr>ptr_arrays :=
       (\<lambda>a i. if a = 400 then (if 0 \<le> i \<and> i \<le> 2147483648 then StrPtr 300 else StrPtr 301)
              else StrPtr 0)\<rparr>"

definition example_create_info_huge :: VkInstanceCreateInfo where
  "example_create_info_huge = example_create_info\<lparr>enabledExtensionCount := 2147483649\<rparr>"

definition example_create_info_no_extensions :: VkInstanceCreateInfo where
  "example_create_info_no_extensions =
     \<lparr>sType = 1, pNext = None, flags = 0, pApplicationInfo = 500, enabledLayerCount = 0,
      ppEnabledLayerNames = NULL, enabledExtensionCount = 0, ppEnabledExtensionNames = NULL\<rparr>"

definition example_child_window :: VkWin32SurfaceCreateInfoKHR where
  "example_child_window =
     \<lparr>w32_sType = 1000009000, w32_pNext = NULL, w32_flags = 0, hinstance = 50, hwnd = 200\<rparr>"

definition example_toplevel_window :: VkWin32SurfaceCreateInfoKHR where
  "example_toplevel_window =
     \<lparr>w32_sType = 1000009000, w32_pNext = NULL, w32_flags = 0, hinstance = 50, hwnd = 150\<rparr>"

section \<open>Properties\<close>

lemmas vk_result_defs =
  VK_SUCCESS_def VK_INCOMPLETE_def VK_ERROR_OUT_OF_HOST_MEMORY_def
  VK_ERROR_LAYER_NOT_PRESENT_def VK_ERROR_INCOMPATIBLE_DRIVER_def

subsection \<open>The chain walk and the copy loop\<close>

lemma log_chain_events:
  "events (log_chain c st) =
     rev (map (\<lambda>t. Dbg FIXME ''Application requested a linked structure of type %d''
                      [ArgInt (sint t)]) (chain_tags c)) @ events st"
  by (induction c st rule: log_chain.induct) (simp_all add: dbg_def)

lemma log_chain_more:
  "log_chain c st = st\<lparr>events := events (log_chain c st)\<rparr>"
  by (induction c st rule: log_chain.induct) (simp_all add: dbg_def)

lemma log_chain_fields:
  "allocated (log_chain c st) = allocated st"
  "ptr_arrays (log_chain c st) = ptr_arrays st"
  "strings (log_chain c st) = strings st"
  by (subst log_chain_more, simp)+

lemma log_chain_allocs: "heap_alloc_calls (log_chain c st) = heap_alloc_calls st"
  by (simp add: heap_alloc_calls_def log_chain_events filter_map comp_def)

lemma ext_loop_more:
  "ext_loop src p i st = st\<lparr>ptr_arrays := ptr_arrays (ext_loop src p i st)\<rparr>"
proof (induction src p i st rule: ext_loop.induct)
  case (1 src p i st)
  show ?case
  proof (cases "i < enabledExtensionCount src")
    case True
    show ?thesis
      by (subst (1 2) ext_loop.simps, subst "1.IH" [OF True]) (simp add: True)
  next
    case False
    then show ?thesis by (simp add: ext_loop.simps)
  qed
qed

lemma ext_loop_fields:
  "events (ext_loop src p i st) = events st"
  "allocated (ext_loop src p i st) = allocated st"
  "strings (ext_loop src p i st) = strings st"
  by (subst ext_loop_more, simp)+

lemma c_str_arrays: "c_str (st\<lparr>ptr_arrays := f\<rparr>) s = c_str st s"
  by (cases s) (simp_all add: c_str_def)

lemma spec_translate_name_arrays:
  "spec_translate_name (st\<lparr>ptr_arrays := f\<rparr>) = spec_translate_name st"
  by (rule ext) (simp add: spec_translate_name_def c_str_arrays)

lemma ext_loop_step:
  "i < enabledExtensionCount src \<Longrightarrow>
   ext_loop src p i st =
     ext_loop src p (i + 1)
       (st\<lparr>ptr_arrays := (ptr_arrays st)
          (p := (ptr_arrays st p)
             (sint i :=
                spec_translate_name st (ptr_arrays st (ppEnabledExtensionNames src) (sint i))))\<rparr>)"
  by (subst ext_loop.simps) (simp add: spec_translate_name_def)

text \<open>
  The cells the loop writes are those at the signed values of the counter, which runs
  through the words from \<open>i\<close> up to the count.
\<close>

lemma counter_next: "(i :: 32 word) < c \<Longrightarrow> (i + 1 \<le> w) = (i < w)"
  by unat_arith

lemma sint_inject_32: "sint (w :: 32 word) = sint v \<Longrightarrow> w = v"
  by (rule signed_word_eqI)

lemma ext_loop_arrays:
  "ptr_arrays (ext_loop src p i st) q j =
     (if q = p \<and> (\<exists>w. i \<le> w \<and> w < enabledExtensionCount src \<and> sint w = j)
      then spec_translate_name st (ptr_arrays st (ppEnabledExtensionNames src) j)
      else ptr_arrays st q j)"
proof (induction src p i st arbitrary: q j rule: ext_loop.induct)
  case (1 src p i st)
  let ?c = "enabledExtensionCount src"
  let ?srcp = "ppEnabledExtensionNames src"
  show ?case
  proof (cases "i < ?c")
    case True
    define st1 where "st1 = st\<lparr>ptr_arrays := (ptr_arrays st)
          (p := (ptr_arrays st p)
             (sint i := spec_translate_name st (ptr_arrays st ?srcp (sint i))))\<rparr>"
    have st1_if: "(if c_str st (ptr_arrays st ?srcp (sint i)) = ''VK_KHR_win32_surface''
           then st\<lparr>ptr_arrays := (ptr_arrays st)
                  (p := (ptr_arrays st p)(sint i := Literal ''VK_KHR_xlib_surface''))\<rparr>
           else st\<lparr>ptr_arrays := (ptr_arrays st)
                  (p := (ptr_arrays st p)(sint i := ptr_arrays st ?srcp (sint i)))\<rparr>) = st1"
      by (simp add: st1_def spec_translate_name_def)
    have tr: "spec_translate_name st1 = spec_translate_name st"
      by (simp add: st1_def spec_translate_name_arrays)
    have step: "ext_loop src p i st = ext_loop src p (i + 1) st1"
      unfolding st1_def using True by (rule ext_loop_step)
    have ih: "ptr_arrays (ext_loop src p (i + 1) st1) q j =
       (if q = p \<and> (\<exists>w. i + 1 \<le> w \<and> w < ?c \<and> sint w = j)
        then spec_translate_name st1 (ptr_arrays st1 ?srcp j)
        else ptr_arrays st1 q j)"
      using "1.IH" [OF True, of q j] unfolding st1_if .
    have later: "(\<exists>w. i + 1 \<le> w \<and> w < ?c \<and> sint w = j) =
                 ((\<exists>w. i \<le> w \<and> w < ?c \<and> sint w = j) \<and> j \<noteq> sint i)"
    proof
      assume "\<exists>w. i + 1 \<le> w \<and> w < ?c \<and> sint w = j"
      then obtain w where w: "i < w" "w < ?c" "sint w = j"
        using counter_next [OF True] by auto
      have "j \<noteq> sint i"
      proof
        assume "j = sint i"
        with w have "w = i" by (simp add: sint_inject_32)
        with w show False by simp
      qed
      moreover from w have "i \<le> w \<and> w < ?c \<and> sint w = j" by simp
      ultimately show "(\<exists>w. i \<le> w \<and> w < ?c \<and> sint w = j) \<and> j \<noteq> sint i" by blast
    next
      assume "(\<exists>w. i \<le> w \<and> w < ?c \<and> sint w = j) \<and> j \<noteq> sint i"
      then obtain w where w: "i \<le> w" "w < ?c" "sint w = j" "j \<noteq> sint i" by blast
      then have "w \<noteq> i" by auto
      with w have "i < w" by simp
      with w show "\<exists>w. i + 1 \<le> w \<and> w < ?c \<and> sint w = j"
        using counter_next [OF True] by auto
    qed
    have first: "\<exists>w. i \<le> w \<and> w < ?c \<and> sint w = sint i"
      using True by auto
    show ?thesis
      unfolding step ih tr later using first by (auto simp: st1_def)
  next
    case False
    then have none: "\<not> (\<exists>w. i \<le> w \<and> w < ?c \<and> sint w = j)" by auto
    have "ext_loop src p i st = st" using False by (simp add: ext_loop.simps)
    then show ?thesis using none by auto
  qed
qed

lemma sint_small: "unat (w :: 32 word) < 2 ^ 31 \<Longrightarrow> sint w = int (unat w)"
proof -
  have small: "k < 2 ^ 31 \<Longrightarrow> sint (of_nat k :: 32 word) = int k" for k
    by (simp add: signed_of_nat signed_take_bit_int_eq_self)
  assume "unat w < 2 ^ 31"
  then show ?thesis using small [of "unat w"] by simp
qed

lemma unat_of_nat_below: "k < unat (c :: 32 word) \<Longrightarrow> unat (of_nat k :: 32 word) = k"
proof -
  assume "k < unat c"
  moreover have "unat c < 2 ^ 32" using unsigned_less [of c] by simp
  ultimately have "k < 2 ^ 32" by simp
  then show ?thesis by (simp add: unsigned_of_nat take_bit_nat_eq_self)
qed

lemma index_written:
  assumes "unat (c :: 32 word) < 2 ^ 31" and "k < unat c"
  shows "\<exists>w. 0 \<le> w \<and> w < c \<and> sint w = int k"
proof -
  let ?w = "of_nat k :: 32 word"
  have u: "unat ?w = k" using assms(2) by (rule unat_of_nat_below)
  then have "?w < c" using assms(2) by (simp add: word_less_nat_alt)
  moreover have "sint ?w = int k" using sint_small [of ?w] u assms by simp
  ultimately show ?thesis by auto
qed

lemma ext_loop_read_array:
  assumes "unat (enabledExtensionCount src) < 2 ^ 31"
  shows "read_array (ext_loop src p 0 st) p (unat (enabledExtensionCount src)) =
     map (spec_translate_name st)
       (read_array st (ppEnabledExtensionNames src) (unat (enabledExtensionCount src)))"
  using index_written [OF assms]
  by (simp add: read_array_def ext_loop_arrays)

lemma heap_alloc_calls_upd [simp]:
  "heap_alloc_calls (st\<lparr>ptr_arrays := f\<rparr>) = heap_alloc_calls st"
  by (simp add: heap_alloc_calls_def)

lemma ext_loop_allocs: "heap_alloc_calls (ext_loop src p i st) = heap_alloc_calls st"
  by (simp add: heap_alloc_calls_def ext_loop_fields)

lemma dbg_fields:
  "allocated (dbg c f a s) = allocated s"
  "ptr_arrays (dbg c f a s) = ptr_arrays s"
  "strings (dbg c f a s) = strings s"
  by (simp_all add: dbg_def)

lemma emit_fields:
  "allocated (emit e s) = allocated s"
  "ptr_arrays (emit e s) = ptr_arrays s"
  "strings (emit e s) = strings s"
  by (simp_all add: emit_def)

lemma spec_translate_name_strings:
  "strings st' = strings st \<Longrightarrow> spec_translate_name st' = spec_translate_name st"
  by (intro ext) (simp add: spec_translate_name_def c_str_def split: cstr.splits)

lemma read_array_allocated_upd [simp]:
  "read_array (st\<lparr>allocated := f\<rparr>) = read_array st"
  by (intro ext) (simp add: read_array_def)

lemma read_array_emit [simp]: "read_array (emit e st) = read_array st"
  by (intro ext) (simp add: read_array_def emit_def)

lemma read_array_log_chain [simp]: "read_array (log_chain c st) = read_array st"
  by (intro ext) (simp add: read_array_def log_chain_fields)

lemma fixmes_emit_alloc [simp]:
  "linked_structure_fixmes (emit (HeapAlloc n p) st) = linked_structure_fixmes st"
  by (simp add: linked_structure_fixmes_def emit_def)

lemma fixmes_dbg_err [simp]:
  "linked_structure_fixmes (dbg ERR fmt args st) = linked_structure_fixmes st"
  by (simp add: linked_structure_fixmes_def dbg_def)

lemma fixmes_allocated_upd [simp]:
  "linked_structure_fixmes (st\<lparr>allocated := f\<rparr>) = linked_structure_fixmes st"
  by (simp add: linked_structure_fixmes_def)

lemma fixmes_ext_loop [simp]:
  "linked_structure_fixmes (ext_loop src p i st) = linked_structure_fixmes st"
  by (simp add: linked_structure_fixmes_def ext_loop_fields)

lemma fixmes_log_chain:
  "linked_structure_fixmes (log_chain c st) =
     rev (map (\<lambda>t. Dbg FIXME ''Application requested a linked structure of type %d''
                      [ArgInt (sint t)]) (chain_tags c)) @ linked_structure_fixmes st"
  by (simp add: linked_structure_fixmes_def log_chain_events filter_map comp_def rev_map [symmetric]
        del: rev_map)

lemma word_pos_or_zero: "(0 < (w :: 32 word)) \<or> w = 0"
  by (simp add: word_neq_0_conv [symmetric])

subsection \<open>The three outcomes of the conversion\<close>

text \<open>
  The function has three paths: no extension names, a failed allocation, and a
  successful allocation followed by the copy loop.
\<close>

lemma convert_no_extensions:
  "enabledExtensionCount src = 0 \<Longrightarrow>
   wine_vk_instance_convert_create_info env src dst st =
     (VK_SUCCESS,
      dst\<lparr>sType := sType src, flags := flags src, pApplicationInfo := pApplicationInfo src,
          pNext := None, enabledLayerCount := 0, ppEnabledLayerNames := NULL,
          enabledExtensionCount := 0\<rparr>,
      log_chain (pNext src) st)"
  by (cases "pNext src") (simp_all add: wine_vk_instance_convert_create_info_def)

lemma convert_alloc_failed:
  "0 < enabledExtensionCount src \<Longrightarrow>
   heap_alloc_ret env (heap_alloc_calls st) (unat (enabledExtensionCount src) * sizeof_ptr env)
     = NULL \<Longrightarrow>
   wine_vk_instance_convert_create_info env src dst st =
     (VK_ERROR_OUT_OF_HOST_MEMORY,
      dst\<lparr>sType := sType src, flags := flags src, pApplicationInfo := pApplicationInfo src,
          pNext := None, enabledLayerCount := 0, ppEnabledLayerNames := NULL\<rparr>,
      dbg ERR ''Failed to allocate memory for enabled extensions'' []
        (emit (HeapAlloc (unat (enabledExtensionCount src) * sizeof_ptr env) NULL)
           (log_chain (pNext src) st)))"
  by (cases "pNext src")
     (simp_all add: wine_vk_instance_convert_create_info_def heap_alloc_def Let_def
        log_chain_allocs emit_def)

lemma convert_alloc_ok:
  "0 < enabledExtensionCount src \<Longrightarrow>
   heap_alloc_ret env (heap_alloc_calls st) (unat (enabledExtensionCount src) * sizeof_ptr env)
     = p \<Longrightarrow> p \<noteq> NULL \<Longrightarrow>
   wine_vk_instance_convert_create_info env src dst st =
     (VK_SUCCESS,
      dst\<lparr>sType := sType src, flags := flags src, pApplicationInfo := pApplicationInfo src,
          pNext := None, enabledLayerCount := 0, ppEnabledLayerNames := NULL,
          ppEnabledExtensionNames := p,
          enabledExtensionCount := enabledExtensionCount src\<rparr>,
      ext_loop src p 0
        ((emit (HeapAlloc (unat (enabledExtensionCount src) * sizeof_ptr env) p)
           (log_chain (pNext src) st))
         \<lparr>allocated := (allocated (log_chain (pNext src) st))
            (p \<mapsto> unat (enabledExtensionCount src) * sizeof_ptr env)\<rparr>))"
  by (cases "pNext src")
     (auto simp add: wine_vk_instance_convert_create_info_def heap_alloc_def Let_def
        log_chain_allocs emit_def)

lemma convert_no_extensions_keeps_pointer:
  "enabledExtensionCount src = 0 \<Longrightarrow>
   ppEnabledExtensionNames (fst (snd (wine_vk_instance_convert_create_info env src dst st))) =
     ppEnabledExtensionNames dst"
  by (simp add: convert_no_extensions)

lemma example_state_no_allocs: "heap_alloc_calls example_state = 0"
  by (simp add: heap_alloc_calls_def example_state_def)

subsection \<open>The claims about the conversion\<close>

text \<open>
  For up to \<open>2^31 - 1\<close> extension names the conversion does what the specification
  asks: when the allocation of the array succeeds, the function returns \<open>VK_SUCCESS\<close>,
  the output points to the newly allocated block, whose size is the input count times
  the size of a pointer, and the first count entries of that array are the input entries
  in the same order with every entry whose string equals \<open>VK_KHR_win32_surface\<close>
  replaced by the literal \<open>VK_KHR_xlib_surface\<close> and every other entry being the same
  pointer; the output count equals the input count.
\<close>

lemma convert_create_info_extension_names_bounded:
  assumes "0 < enabledExtensionCount src"
      and "unat (enabledExtensionCount src) < 2 ^ 31"
      and "heap_alloc_ret env (heap_alloc_calls st)
             (unat (enabledExtensionCount src) * sizeof_ptr env) \<noteq> NULL"
  shows "case wine_vk_instance_convert_create_info env src dst st of
           (res, dst', st') \<Rightarrow>
             res = VK_SUCCESS
             \<and> ppEnabledExtensionNames dst' =
                 heap_alloc_ret env (heap_alloc_calls st)
                   (unat (enabledExtensionCount src) * sizeof_ptr env)
             \<and> allocated st' (ppEnabledExtensionNames dst') =
                 Some (unat (enabledExtensionCount src) * sizeof_ptr env)
             \<and> read_array st' (ppEnabledExtensionNames dst')
                   (unat (enabledExtensionCount src)) =
                 map (spec_translate_name st)
                   (read_array st (ppEnabledExtensionNames src)
                      (unat (enabledExtensionCount src)))
             \<and> enabledExtensionCount dst' = enabledExtensionCount src"
proof -
  let ?n = "unat (enabledExtensionCount src) * sizeof_ptr env"
  let ?p = "heap_alloc_ret env (heap_alloc_calls st) ?n"
  let ?st2 = "(emit (HeapAlloc ?n ?p) (log_chain (pNext src) st))
                \<lparr>allocated := (allocated (log_chain (pNext src) st))(?p \<mapsto> ?n)\<rparr>"
  have tr: "spec_translate_name ?st2 = spec_translate_name st"
    by (rule spec_translate_name_strings) (simp add: emit_fields log_chain_fields)
  show ?thesis
    using assms
    by (simp add: convert_alloc_ok [where p = ?p] ext_loop_read_array ext_loop_fields tr)
qed

lemma convert_create_info_extension_names_example:
  "read_array example_state (ppEnabledExtensionNames example_create_info) 3 =
        [StrPtr 301, StrPtr 300, StrPtr 300]
   \<and> (case wine_vk_instance_convert_create_info example_env example_create_info
              (uninitialized_create_info example_env) example_state of
         (res, dst', st') \<Rightarrow>
           res = VK_SUCCESS \<and> ppEnabledExtensionNames dst' = 4096
           \<and> allocated st' 4096 = Some 24
           \<and> read_array st' 4096 3 =
               [StrPtr 301, Literal ''VK_KHR_xlib_surface'', Literal ''VK_KHR_xlib_surface'']
           \<and> enabledExtensionCount dst' = 3)"
proof -
  have h1: "0 < enabledExtensionCount example_create_info"
    by (simp add: example_create_info_def)
  have h2: "heap_alloc_ret example_env (heap_alloc_calls example_state)
        (unat (enabledExtensionCount example_create_info) * sizeof_ptr example_env) \<noteq> NULL"
    by (simp add: example_env_def)
  have h3: "unat (enabledExtensionCount example_create_info) < 2 ^ 31"
    by (simp add: example_create_info_def)
  have arr: "read_array example_state (ppEnabledExtensionNames example_create_info) 3 =
        [StrPtr 301, StrPtr 300, StrPtr 300]"
    by (simp add: read_array_def example_state_def example_create_info_def upt_rec)
  have tr: "map (spec_translate_name example_state) [StrPtr 301, StrPtr 300, StrPtr 300] =
        [StrPtr 301, Literal ''VK_KHR_xlib_surface'', Literal ''VK_KHR_xlib_surface'']"
    by (simp add: spec_translate_name_def c_str_def example_state_def)
  have vals: "unat (enabledExtensionCount example_create_info) = 3"
       "sizeof_ptr example_env = 8"
       "heap_alloc_ret example_env (heap_alloc_calls example_state) 24 = 4096"
       "enabledExtensionCount example_create_info = 3"
    by (simp_all add: example_create_info_def example_env_def example_state_no_allocs)
  show ?thesis
    using arr tr
      convert_create_info_extension_names_bounded [OF h1 h3 h2,
        where dst = "uninitialized_create_info example_env"]
    by (auto simp: vals split: prod.splits)
qed

text \<open>
  No value of the \<open>int\<close> counter reaches an index of \<open>2^31\<close> or more: whatever the
  count, the loop leaves those cells of every array as they were.
\<close>

lemma sint_below: "sint (w :: 32 word) \<noteq> 2147483648"
  using sint_lt [of w] by simp

lemma ext_loop_high_index_unwritten:
  "2147483648 \<le> j \<Longrightarrow> ptr_arrays (ext_loop src p i st) q j = ptr_arrays st q j"
proof -
  assume "2147483648 \<le> j"
  moreover have "sint w < 2147483648" for w :: "32 word"
    using sint_lt [of w] by simp
  ultimately have "\<not> (\<exists>w. i \<le> w \<and> w < enabledExtensionCount src \<and> sint w = j)"
    by (metis not_le)
  then show ?thesis unfolding ext_loop_arrays by auto
qed

text \<open>
  Claim C1, evaluated at a descriptor with \<open>2^31 + 1\<close> extension names, each the win32
  surface name, when the allocation succeeds. The function returns \<open>VK_SUCCESS\<close> and
  records the full count, but the counter is an \<open>int\<close>: after index \<open>2^31 - 1\<close> it
  overflows to \<open>-2^31\<close>, which the loop test, comparing as unsigned, still accepts. The
  entry at index \<open>2^31\<close> of the output array is never written and is not the xlib surface
  name, and the cell \<open>2^31\<close> places below the start of the new block is overwritten with
  what lies that far below the input array.
\<close>

theorem convert_create_info_int_counter_overflow:
  "enabledExtensionCount example_create_info_huge = 2147483649
   \<and> ptr_arrays example_state_huge (ppEnabledExtensionNames example_create_info_huge)
        2147483648 = StrPtr 300
   \<and> c_str example_state_huge (StrPtr 300) = ''VK_KHR_win32_surface''
   \<and> heap_alloc_ret example_env (heap_alloc_calls example_state_huge)
        (unat (enabledExtensionCount example_create_info_huge) * sizeof_ptr example_env)
        = 4096
   \<and> (case wine_vk_instance_convert_create_info example_env example_create_info_huge
              (uninitialized_create_info example_env) example_state_huge of
         (res, dst', st') \<Rightarrow>
           res = VK_SUCCESS \<and> ppEnabledExtensionNames dst' = 4096
           \<and> enabledExtensionCount dst' = 2147483649
           \<and> ptr_arrays st' 4096 0 = Literal ''VK_KHR_xlib_surface''
           \<and> ptr_arrays st' 4096 2147483648 = ptr_arrays example_state_huge 4096 2147483648
           \<and> ptr_arrays st' 4096 2147483648 \<noteq> Literal ''VK_KHR_xlib_surface''
           \<and> ptr_arrays example_state_huge 4096 (- 2147483648) = StrPtr 0
           \<and> ptr_arrays st' 4096 (- 2147483648) = StrPtr 301)"
proof -
  let ?src = example_create_info_huge
  have cnt: "enabledExtensionCount ?src = 2147483649" "ppEnabledExtensionNames ?src = 400"
    "pNext ?src = Some (Header 1000011000 (Some (Header 47 None)))"
    by (simp_all add: example_create_info_huge_def example_create_info_def)
  have calls: "heap_alloc_calls example_state_huge = 0"
    by (simp add: heap_alloc_calls_def example_state_huge_def example_state_def)
  have p: "heap_alloc_ret example_env (heap_alloc_calls example_state_huge)
        (unat (enabledExtensionCount ?src) * sizeof_ptr example_env) = 4096"
    by (simp add: calls example_env_def)
  have mem: "ptr_arrays example_state_huge a i =
      (if a = 400 then (if 0 \<le> i \<and> i \<le> 2147483648 then StrPtr 300 else StrPtr 301)
       else StrPtr 0)" for a i
    by (simp add: example_state_huge_def)
  have str: "c_str example_state_huge (StrPtr 300) = ''VK_KHR_win32_surface''"
       "c_str example_state_huge (StrPtr 301) = ''VK_KHR_surface''"
    by (simp_all add: c_str_def example_state_huge_def example_state_def)
  have tr: "spec_translate_name example_state_huge (StrPtr 300) = Literal ''VK_KHR_xlib_surface''"
       "spec_translate_name example_state_huge (StrPtr 301) = StrPtr 301"
    by (simp_all add: spec_translate_name_def str)
  have w0: "\<exists>w :: 32 word. w < 2147483649 \<and> sint w = 0"
    by (rule exI [of _ 0]) simp
  have wmin: "\<exists>w :: 32 word. w < 2147483649 \<and> sint w = - 2147483648"
    by (rule exI [of _ 2147483648]) simp
  have wtop: "\<not> (\<exists>w :: 32 word. w < 2147483649 \<and> sint w = 2147483648)"
    using sint_below by blast
  define st2 where "st2 =
      (emit (HeapAlloc (unat (enabledExtensionCount ?src) * sizeof_ptr example_env) 4096)
           (log_chain (pNext ?src) example_state_huge))
         \<lparr>allocated := (allocated (log_chain (pNext ?src) example_state_huge))
            (4096 \<mapsto> unat (enabledExtensionCount ?src) * sizeof_ptr example_env)\<rparr>"
  have st2_mem: "ptr_arrays st2 = ptr_arrays example_state_huge"
    unfolding st2_def by (simp add: emit_fields log_chain_fields)
  have st2_tr: "spec_translate_name st2 = spec_translate_name example_state_huge"
    unfolding st2_def
    by (rule spec_translate_name_strings) (simp add: emit_fields log_chain_fields)
  have conv: "wine_vk_instance_convert_create_info example_env ?src
      (uninitialized_create_info example_env) example_state_huge =
     (VK_SUCCESS,
      (uninitialized_create_info example_env)
         \<lparr>sType := sType ?src, flags := flags ?src, pApplicationInfo := pApplicationInfo ?src,
          pNext := None, enabledLayerCount := 0, ppEnabledLayerNames := NULL,
          ppEnabledExtensionNames := 4096,
          enabledExtensionCount := enabledExtensionCount ?src\<rparr>,
      ext_loop ?src 4096 0 st2)"
    unfolding st2_def by (rule convert_alloc_ok [OF _ p]) (simp_all add: cnt)
  have out: "ptr_arrays (ext_loop ?src 4096 0 st2) 4096 j =
     (if (\<exists>w. w < (2147483649 :: 32 word) \<and> sint w = j)
      then spec_translate_name example_state_huge (ptr_arrays example_state_huge 400 j)
      else ptr_arrays example_state_huge 4096 j)" for j
    by (auto simp: ext_loop_arrays st2_mem st2_tr cnt)
  have p': "heap_alloc_ret example_env k n = 4096 + 256 * k" for k n
    by (simp add: example_env_def)
  show ?thesis
    unfolding conv
    by (simp add: cnt p' calls str out w0 wmin wtop mem tr)
qed

text \<open>
  Claim C2, evaluated at a descriptor without extension names. The function succeeds,
  records the count zero and allocates nothing, but it never writes
  \<open>ppEnabledExtensionNames\<close> of the output: the output keeps the indeterminate pointer the
  caller's automatic variable held, here a non-null one, and in the second state the start
  of a live block of another owner. \<open>X11DRV_vkCreateInstance\<close>, which frees the array when
  that pointer is not null, then frees this foreign pointer.
\<close>

theorem convert_create_info_zero_extensions_stale_pointer:
  "enabledExtensionCount example_create_info_no_extensions = 0
   \<and> (case wine_vk_instance_convert_create_info example_env example_create_info_no_extensions
              (uninitialized_create_info example_env) example_state of
         (res, dst', st') \<Rightarrow>
           res = VK_SUCCESS \<and> enabledExtensionCount dst' = 0
           \<and> heap_alloc_calls st' = 0 \<and> allocated st' = Map.empty
           \<and> ppEnabledExtensionNames dst' = 3735928559
           \<and> ppEnabledExtensionNames dst' \<noteq> NULL)
   \<and> (case wine_vk_instance_convert_create_info example_env example_create_info_no_extensions
              (uninitialized_create_info example_env) example_state_stale of
         (res, dst', st') \<Rightarrow>
           res = VK_SUCCESS \<and> heap_alloc_calls st' = 0
           \<and> allocated st' (ppEnabledExtensionNames dst') = Some 24)
   \<and> (case X11DRV_vkCreateInstance example_env example_create_info_no_extensions NULL 700
              example_state_stale of
         (res, st') \<Rightarrow>
           res = VK_SUCCESS \<and> hd (events st') = HeapFree 3735928559
           \<and> allocated st' 3735928559 = None)"
  by (simp add: X11DRV_vkCreateInstance_def convert_no_extensions
        example_create_info_no_extensions_def example_env_def log_chain_allocs
        heap_alloc_calls_def example_state_stale_def example_state_def heap_free_def
        emit_def dbg_def Let_def)

text \<open>
  Claim C3. For every input descriptor, whatever the length and content of its \<open>pNext\<close>
  chain: the output \<open>pNext\<close> is null; the function emits exactly one
  "linked structure" FIXME for each node of the chain, naming its type tag, in chain
  order; and the result code and the output descriptor are those obtained for the same
  input with the chain removed, so the chain never causes an error.
\<close>

theorem convert_create_info_drops_chain:
  "pNext (fst (snd (wine_vk_instance_convert_create_info env src dst st))) = None
   \<and> linked_structure_fixmes (snd (snd (wine_vk_instance_convert_create_info env src dst st))) =
       rev (map (\<lambda>t. Dbg FIXME ''Application requested a linked structure of type %d''
                        [ArgInt (sint t)]) (chain_tags (pNext src)))
       @ linked_structure_fixmes st
   \<and> fst (wine_vk_instance_convert_create_info env src dst st) =
       fst (wine_vk_instance_convert_create_info env (src\<lparr>pNext := None\<rparr>) dst st)
   \<and> fst (snd (wine_vk_instance_convert_create_info env src dst st)) =
       fst (snd (wine_vk_instance_convert_create_info env (src\<lparr>pNext := None\<rparr>) dst st))"
proof -
  let ?n = "unat (enabledExtensionCount src) * sizeof_ptr env"
  let ?p = "heap_alloc_ret env (heap_alloc_calls st) ?n"
  consider (zero) "enabledExtensionCount src = 0"
    | (fail) "0 < enabledExtensionCount src" "?p = NULL"
    | (ok) "0 < enabledExtensionCount src" "?p \<noteq> NULL"
    using word_pos_or_zero [of "enabledExtensionCount src"] by blast
  then show ?thesis
  proof cases
    case zero
    then show ?thesis
      by (simp add: convert_no_extensions fixmes_log_chain)
  next
    case fail
    then show ?thesis
      by (simp add: convert_alloc_failed fixmes_log_chain)
  next
    case ok
    then show ?thesis
      by (simp add: convert_alloc_ok [where p = ?p] fixmes_log_chain)
  qed
qed

theorem convert_create_info_drops_chain_witness:
  "chain_tags (pNext example_create_info) = [1000011000, 47]
   \<and> pNext (fst (snd (wine_vk_instance_convert_create_info example_env example_create_info
         (uninitialized_create_info example_env) example_state))) = None
   \<and> linked_structure_fixmes (snd (snd (wine_vk_instance_convert_create_info example_env
         example_create_info (uninitialized_create_info example_env) example_state))) =
       [Dbg FIXME ''Application requested a linked structure of type %d'' [ArgInt 47],
        Dbg FIXME ''Application requested a linked structure of type %d'' [ArgInt 1000011000]]
   \<and> fst (wine_vk_instance_convert_create_info example_env example_create_info
         (uninitialized_create_info example_env) example_state) = VK_SUCCESS"
proof -
  have tags: "chain_tags (pNext example_create_info) = [1000011000, 47]"
    by (simp add: example_create_info_def)
  have nofix: "linked_structure_fixmes example_state = []"
    by (simp add: linked_structure_fixmes_def example_state_def)
  have res: "fst (wine_vk_instance_convert_create_info example_env
         (example_create_info\<lparr>pNext := None\<rparr>)
         (uninitialized_create_info example_env) example_state) = VK_SUCCESS"
    by (subst convert_alloc_ok [where p = 4096])
       (simp_all add: example_create_info_def example_env_def example_state_no_allocs)
  note inst = convert_create_info_drops_chain [where env = example_env
       and src = example_create_info and dst = "uninitialized_create_info example_env"
       and st = example_state]
  from inst have a: "pNext (fst (snd (wine_vk_instance_convert_create_info example_env
         example_create_info (uninitialized_create_info example_env) example_state))) = None"
    by (rule conjunct1)
  from inst have b: "linked_structure_fixmes (snd (snd (wine_vk_instance_convert_create_info
         example_env example_create_info (uninitialized_create_info example_env)
         example_state))) =
       rev (map (\<lambda>t. Dbg FIXME ''Application requested a linked structure of type %d''
                        [ArgInt (sint t)]) (chain_tags (pNext example_create_info)))
       @ linked_structure_fixmes example_state"
    by (rule conjunct2 [THEN conjunct1])
  from inst have c: "fst (wine_vk_instance_convert_create_info example_env example_create_info
         (uninitialized_create_info example_env) example_state) =
       fst (wine_vk_instance_convert_create_info example_env
         (example_create_info\<lparr>pNext := None\<rparr>)
         (uninitialized_create_info example_env) example_state)"
    by (rule conjunct2 [THEN conjunct2, THEN conjunct1])
  show ?thesis
    by (simp add: a b c tags nofix res)
qed

text \<open>
  Claim C4. For every input descriptor, also one with a non-empty layer list, the output
  of \<open>wine_vk_instance_convert_create_info\<close> has \<open>enabledLayerCount\<close> zero and
  \<open>ppEnabledLayerNames\<close> null. This holds on the failure path as well, since both fields
  are written before the allocation.
\<close>

theorem convert_create_info_clears_layers: "enabledLayerCount (fst (snd (wine_vk_instance_convert_create_info env src dst st))) = 0
   \<and> ppEnabledLayerNames (fst (snd (wine_vk_instance_convert_create_info env src dst st))) = NULL"
  by (simp add: wine_vk_instance_convert_create_info_def Let_def split: prod.splits)

theorem convert_create_info_clears_layers_witness:
  "enabledLayerCount example_create_info = 1 \<and>
   enabledLayerCount (fst (snd (wine_vk_instance_convert_create_info example_env
       example_create_info (uninitialized_create_info example_env) example_state))) = 0"
  using convert_create_info_clears_layers [of example_env example_create_info
     "uninitialized_create_info example_env" example_state]
  by (simp add: example_create_info_def)

text \<open>
  Claim C5. The function calls the heap allocator exactly once when
  \<open>enabledExtensionCount\<close> is greater than zero and not at all otherwise. If that
  allocation fails the result is \<open>VK_ERROR_OUT_OF_HOST_MEMORY\<close>, the set of live heap
  blocks and the array memory are unchanged, and the array pointer of the output record
  is not written; in every other case the result is \<open>VK_SUCCESS\<close>.
\<close>

theorem convert_create_info_single_allocation:
  "case wine_vk_instance_convert_create_info env src dst st of
     (res, dst', st') \<Rightarrow>
       heap_alloc_calls st' =
         heap_alloc_calls st + (if 0 < enabledExtensionCount src then 1 else 0)
       \<and> (if 0 < enabledExtensionCount src
              \<and> heap_alloc_ret env (heap_alloc_calls st)
                    (unat (enabledExtensionCount src) * sizeof_ptr env) = NULL
           then res = VK_ERROR_OUT_OF_HOST_MEMORY
                \<and> allocated st' = allocated st
                \<and> ptr_arrays st' = ptr_arrays st
                \<and> ppEnabledExtensionNames dst' = ppEnabledExtensionNames dst
           else res = VK_SUCCESS)"
proof -
  let ?n = "unat (enabledExtensionCount src) * sizeof_ptr env"
  let ?p = "heap_alloc_ret env (heap_alloc_calls st) ?n"
  have calls_emit: "\<And>p s. heap_alloc_calls (emit (HeapAlloc ?n p) s) = Suc (heap_alloc_calls s)"
    by (simp add: heap_alloc_calls_def emit_def)
  have calls_alloc: "\<And>f s. heap_alloc_calls (s\<lparr>allocated := f\<rparr>) = heap_alloc_calls s"
    by (simp add: heap_alloc_calls_def)
  have calls_dbg: "\<And>c f a s. heap_alloc_calls (dbg c f a s) = heap_alloc_calls s"
    by (simp add: heap_alloc_calls_def dbg_def)
  consider (zero) "enabledExtensionCount src = 0"
    | (fail) "0 < enabledExtensionCount src" "?p = NULL"
    | (ok) "0 < enabledExtensionCount src" "?p \<noteq> NULL"
    using word_pos_or_zero [of "enabledExtensionCount src"] by blast
  then show ?thesis
  proof cases
    case zero
    then show ?thesis
      by (simp add: convert_no_extensions log_chain_allocs)
  next
    case fail
    then show ?thesis
      by (simp add: convert_alloc_failed log_chain_allocs calls_emit calls_dbg
            dbg_fields emit_fields log_chain_fields)
  next
    case ok
    then show ?thesis
      by (simp add: convert_alloc_ok [where p = ?p] ext_loop_allocs calls_emit calls_alloc
            log_chain_allocs)
  qed
qed

theorem convert_create_info_single_allocation_witness:
  "0 < enabledExtensionCount example_create_info
   \<and> (case wine_vk_instance_convert_create_info example_env_oom example_create_info
              (uninitialized_create_info example_env_oom) example_state of
         (res, dst', st') \<Rightarrow>
           heap_alloc_calls st' = 1 \<and> res = VK_ERROR_OUT_OF_HOST_MEMORY
           \<and> allocated st' = Map.empty \<and> ppEnabledExtensionNames dst' = 3735928559)
   \<and> (case wine_vk_instance_convert_create_info example_env example_create_info_no_extensions
              (uninitialized_create_info example_env) example_state of
         (res, dst', st') \<Rightarrow> heap_alloc_calls st' = 0 \<and> res = VK_SUCCESS)"
proof -
  have h1: "0 < enabledExtensionCount example_create_info"
    by (simp add: example_create_info_def)
  have h2: "\<not> 0 < enabledExtensionCount example_create_info_no_extensions"
    by (simp add: example_create_info_no_extensions_def)
  have vals: "heap_alloc_ret example_env_oom k n = NULL"
       "allocated example_state = Map.empty"
       "ppEnabledExtensionNames (uninitialized_create_info example_env_oom) = 3735928559"
    for k n
    by (simp_all add: example_env_oom_def example_env_def example_state_def)
  show ?thesis
    using h1 h2
      convert_create_info_single_allocation [where env = example_env_oom
        and src = example_create_info
        and dst = "uninitialized_create_info example_env_oom" and st = example_state]
      convert_create_info_single_allocation [where env = example_env
        and src = example_create_info_no_extensions
        and dst = "uninitialized_create_info example_env" and st = example_state]
    by (auto simp: vals example_state_no_allocs split: prod.splits)
qed

subsection \<open>The plugin entry point\<close>

text \<open>
  What holds of \<open>get_vulkan_driver\<close>: a version mismatch always yields null; at first
  use the table is returned exactly when the library opens and all seven entry points
  resolve; and a failure to open the library is remembered by every later call.
\<close>

lemma get_vulkan_driver_version_mismatch:
  "version \<noteq> WINE_VULKAN_DRIVER_VERSION env \<Longrightarrow>
   fst (get_vulkan_driver env version st) = None"
  by (simp add: get_vulkan_driver_def)

lemma wine_vk_init_first_use:
  "\<not> init_done st \<Longrightarrow> fst (wine_vk_init env st) = backend_resolves env"
  by (simp add: wine_vk_init_def backend_resolves_def Let_def)

lemma get_vulkan_driver_first_use:
  "\<not> init_done st \<Longrightarrow>
   fst (get_vulkan_driver env (WINE_VULKAN_DRIVER_VERSION env) st) =
     (if backend_resolves env then Some vulkan_funcs else None)"
  using wine_vk_init_first_use [of st env]
  by (cases "wine_vk_init env st") (auto simp: get_vulkan_driver_def)

lemma wine_vk_init_done:
  "init_done (snd (wine_vk_init env st))"
  by (simp add: wine_vk_init_def Let_def)

lemma wine_vk_init_open_failure:
  "\<not> init_done st \<Longrightarrow> wine_dlopen env = NULL \<Longrightarrow>
   vulkan_handle (snd (wine_vk_init env st)) = NULL"
  by (simp add: wine_vk_init_def Let_def)

lemma get_vulkan_driver_unavailable_cached:
  "init_done st \<Longrightarrow> vulkan_handle st = NULL \<Longrightarrow>
   fst (get_vulkan_driver env version st) = None
   \<and> init_done (snd (get_vulkan_driver env version st))
   \<and> vulkan_handle (snd (get_vulkan_driver env version st)) = NULL"
  by (simp add: get_vulkan_driver_def wine_vk_init_def dbg_def)

text \<open>
  A failure to resolve a symbol is not remembered: once the library has opened, the
  second call with the matching version returns the table, whatever \<open>wine_dlsym\<close>
  answered.
\<close>

lemma get_vulkan_driver_second_call:
  "\<not> init_done st \<Longrightarrow> wine_dlopen env \<noteq> NULL \<Longrightarrow>
   fst (get_vulkan_driver env (WINE_VULKAN_DRIVER_VERSION env)
          (snd (get_vulkan_driver env (WINE_VULKAN_DRIVER_VERSION env) st))) =
     Some vulkan_funcs"
  by (simp add: get_vulkan_driver_def wine_vk_init_def Let_def)

text \<open>
  Claim C6, evaluated in an environment whose library opens but does not export
  \<open>vkCreateXlibSurfaceKHR\<close>. The first call with the matching version returns null. The
  failed \<open>LOAD_FUNCPTR\<close> leaves \<open>vulkan_handle\<close> non-null, and later calls report
  \<open>vulkan_handle != NULL\<close>: the second call with the matching version returns the table.
\<close>

theorem get_vulkan_driver_symbol_failure_not_cached:
  "\<not> backend_resolves example_env
   \<and> fst (get_vulkan_driver example_env (WINE_VULKAN_DRIVER_VERSION example_env)
            example_state) = None
   \<and> fst (get_vulkan_driver example_env (WINE_VULKAN_DRIVER_VERSION example_env)
            (snd (get_vulkan_driver example_env (WINE_VULKAN_DRIVER_VERSION example_env)
                    example_state))) = Some vulkan_funcs"
  by (simp add: get_vulkan_driver_def wine_vk_init_def backend_resolves_def example_env_def
        example_state_def Let_def)

text \<open>
  Claim C8, evaluated in the same environment, in the state the failed initialisation
  leaves behind: \<open>wine_vk_init\<close> has returned \<open>FALSE\<close> and \<open>pvkCreateXlibSurfaceKHR\<close> is
  null, yet \<open>get_vulkan_driver\<close> with the matching version returns the function table.
\<close>

theorem get_vulkan_driver_table_after_failed_init:
  "fst (wine_vk_init example_env example_state) = False
   \<and> pvkCreateXlibSurfaceKHR (snd (wine_vk_init example_env example_state)) = NULL
   \<and> get_vulkan_driver example_env (WINE_VULKAN_DRIVER_VERSION example_env)
        (snd (wine_vk_init example_env example_state)) =
       (Some vulkan_funcs, snd (wine_vk_init example_env example_state))"
  by (simp add: get_vulkan_driver_def wine_vk_init_def example_env_def
        example_state_def Let_def)

subsection \<open>Surface creation\<close>

text \<open>
  Claim C7. When the parent of the target window is not the desktop window,
  \<open>X11DRV_vkCreateWin32SurfaceKHR\<close> returns \<open>VK_ERROR_INCOMPATIBLE_DRIVER\<close>, has not
  called the native surface creation entry point, has not called the heap allocator, and
  leaves the set of live heap blocks unchanged.
\<close>

theorem create_surface_child_window_rejected:
  assumes "GetAncestor_GA_PARENT env (hwnd create_info) \<noteq> GetDesktopWindow env"
  shows "case X11DRV_vkCreateWin32SurfaceKHR env instance create_info allocator surface st of
           (res, st') \<Rightarrow>
             res = VK_ERROR_INCOMPATIBLE_DRIVER
             \<and> surface_creation_calls st' = surface_creation_calls st
             \<and> heap_alloc_calls st' = heap_alloc_calls st
             \<and> allocated st' = allocated st"
  using assms
  by (simp add: X11DRV_vkCreateWin32SurfaceKHR_def Let_def dbg_def heap_alloc_calls_def
        surface_creation_calls_def)

theorem create_surface_child_window_rejected_witness:
  "GetAncestor_GA_PARENT example_env (hwnd example_child_window) \<noteq> GetDesktopWindow example_env
   \<and> (case X11DRV_vkCreateWin32SurfaceKHR example_env 1 example_child_window NULL 600
              example_state of
         (res, st') \<Rightarrow>
           res = VK_ERROR_INCOMPATIBLE_DRIVER \<and> surface_creation_calls st' = 0
           \<and> heap_alloc_calls st' = 0 \<and> allocated st' = Map.empty)"
proof -
  have h: "GetAncestor_GA_PARENT example_env (hwnd example_child_window)
             \<noteq> GetDesktopWindow example_env"
    by (simp add: example_env_def example_child_window_def)
  have vals: "surface_creation_calls example_state = 0" "allocated example_state = Map.empty"
    by (simp_all add: surface_creation_calls_def example_state_def)
  have "case X11DRV_vkCreateWin32SurfaceKHR example_env 1 example_child_window NULL 600
              example_state of
          (res, st') \<Rightarrow>
             res = VK_ERROR_INCOMPATIBLE_DRIVER
             \<and> surface_creation_calls st' = surface_creation_calls example_state
             \<and> heap_alloc_calls st' = heap_alloc_calls example_state
             \<and> allocated st' = allocated example_state"
    by (rule create_surface_child_window_rejected [OF h])
  with h show ?thesis
    by (auto simp: vals example_state_no_allocs split: prod.splits)
qed

text \<open>
  The path on which the native surface creation fails, for every environment: the
  native result code is returned and the caller's handle is not written, and the record
  allocated for the surface is still a live block afterwards.
\<close>

lemma create_surface_native_failure:
  assumes parent: "GetAncestor_GA_PARENT env (hwnd create_info) = GetDesktopWindow env"
      and win: "create_client_window env (hwnd create_info) \<noteq> 0"
      and alloc: "heap_alloc_ret env (heap_alloc_calls st) (sizeof_wine_vk_surface env) = p"
                 "p \<noteq> NULL"
      and native: "native_vkCreateXlibSurfaceKHR env instance
                     \<lparr>xlib_sType = VK_STRUCTURE_TYPE_XLIB_SURFACE_CREATE_INFO_KHR,
                      xlib_pNext = NULL, xlib_flags = 0, dpy = gdi_display env,
                      xlib_window = create_client_window env (hwnd create_info)\<rparr> = (res, h)"
                  "res \<noteq> VK_SUCCESS"
      and distinct: "surface \<noteq> p"
  shows "case X11DRV_vkCreateWin32SurfaceKHR env instance create_info allocator surface st of
           (res', st') \<Rightarrow>
             res' = res
             \<and> mem64 st' surface = mem64 st surface
             \<and> allocated st' p = Some (sizeof_wine_vk_surface env)"
  using assms
  by (simp add: X11DRV_vkCreateWin32SurfaceKHR_def heap_alloc_def heap_free_def emit_def
        dbg_def heap_alloc_calls_def Let_def)

text \<open>
  Claim C10, evaluated for a top-level window when the native surface creation answers
  \<open>VK_ERROR_INITIALIZATION_FAILED\<close> (\<open>-3\<close>). The result code is passed on and the caller's
  handle at address 600 is not written, but the function frees the caller's pointer
  \<open>surface\<close> (address 600) and not \<open>x11_surface\<close>: the record allocated at address 4096
  is still a live block when the function returns, and no free of it was issued.
\<close>

theorem create_surface_failure_frees_wrong_pointer:
  "GetAncestor_GA_PARENT example_env (hwnd example_toplevel_window) = GetDesktopWindow example_env
   \<and> native_vkCreateXlibSurfaceKHR example_env 1
        \<lparr>xlib_sType = VK_STRUCTURE_TYPE_XLIB_SURFACE_CREATE_INFO_KHR, xlib_pNext = NULL,
         xlib_flags = 0, dpy = 7000, xlib_window = 5150\<rparr> = (- 3, 0)
   \<and> (case X11DRV_vkCreateWin32SurfaceKHR example_env 1 example_toplevel_window NULL 600
              example_state of
         (res, st') \<Rightarrow>
           res = - 3
           \<and> mem64 st' 600 = mem64 example_state 600
           \<and> allocated example_state 4096 = None
           \<and> allocated st' 4096 = Some 16
           \<and> surf_window (wine_surfaces st' 4096) = 5150
           \<and> filter (\<lambda>e. e = HeapFree 4096) (events st') = []
           \<and> hd (events st') = HeapFree 600)"
  by (simp add: X11DRV_vkCreateWin32SurfaceKHR_def example_env_def example_toplevel_window_def
        example_state_def heap_alloc_def heap_alloc_calls_def heap_free_def emit_def dbg_def
        Let_def vk_result_defs)

subsection \<open>The function table\<close>

text \<open>
  Claim C9 as stated fails at the \<open>vkDestroySwapchainKHR\<close> entry: the function is
  \<open>void\<close>, as the Vulkan API declares it, so a call through this entry returns no
  \<open>VkResult\<close>.
\<close>

theorem destroy_swapchain_entry_returns_no_result:
  "fst (call_unimplemented vulkan_funcs (Call_vkDestroySwapchainKHR 1 2 NULL) example_state)
     \<noteq> RetVkResult VK_ERROR_OUT_OF_HOST_MEMORY"
  by (simp add: vulkan_funcs_def)

text \<open>
  Claim C9, amended. Every entry of the table is non-null. Each of the eight
  unimplemented entries that return a \<open>VkResult\<close> (\<open>vkAcquireNextImageKHR\<close>,
  \<open>vkCreateSwapchainKHR\<close>, \<open>vkGetPhysicalDeviceSurfaceCapabilitiesKHR\<close>,
  \<open>vkGetPhysicalDeviceSurfaceFormatsKHR\<close>, \<open>vkGetPhysicalDeviceSurfacePresentModesKHR\<close>,
  \<open>vkGetPhysicalDeviceSurfaceSupportKHR\<close>, \<open>vkGetSwapchainImagesKHR\<close>,
  \<open>vkQueuePresentKHR\<close>) returns \<open>VK_ERROR_OUT_OF_HOST_MEMORY\<close> for every input. The
  unimplemented \<open>vkDestroySwapchainKHR\<close> returns nothing and only emits its FIXME line.
\<close>

theorem function_table_complete:
  "all_entries_present vulkan_funcs
   \<and> fst (call_unimplemented vulkan_funcs
        (Call_vkAcquireNextImageKHR device swapchain timeout semaphore fence index) st)
       = RetVkResult VK_ERROR_OUT_OF_HOST_MEMORY
   \<and> fst (call_unimplemented vulkan_funcs
        (Call_vkCreateSwapchainKHR device create_info allocator pswapchain) st)
       = RetVkResult VK_ERROR_OUT_OF_HOST_MEMORY
   \<and> fst (call_unimplemented vulkan_funcs
        (Call_vkGetPhysicalDeviceSurfaceCapabilitiesKHR phys_dev surface capabilities) st)
       = RetVkResult VK_ERROR_OUT_OF_HOST_MEMORY
   \<and> fst (call_unimplemented vulkan_funcs
        (Call_vkGetPhysicalDeviceSurfaceFormatsKHR phys_dev surface count formats) st)
       = RetVkResult VK_ERROR_OUT_OF_HOST_MEMORY
   \<and> fst (call_unimplemented vulkan_funcs
        (Call_vkGetPhysicalDeviceSurfacePresentModesKHR phys_dev surface count modes) st)
       = RetVkResult VK_ERROR_OUT_OF_HOST_MEMORY
   \<and> fst (call_unimplemented vulkan_funcs
        (Call_vkGetPhysicalDeviceSurfaceSupportKHR phys_dev queue_index surface supported) st)
       = RetVkResult VK_ERROR_OUT_OF_HOST_MEMORY
   \<and> fst (call_unimplemented vulkan_funcs
        (Call_vkGetSwapchainImagesKHR device swapchain count images) st)
       = RetVkResult VK_ERROR_OUT_OF_HOST_MEMORY
   \<and> fst (call_unimplemented vulkan_funcs (Call_vkQueuePresentKHR queue present_info) st)
       = RetVkResult VK_ERROR_OUT_OF_HOST_MEMORY
   \<and> call_unimplemented vulkan_funcs (Call_vkDestroySwapchainKHR device swapchain allocator) st
       = (RetVoid,
          dbg FIXME ''stub: %p, 0x%s %p''
            [ArgPtr device, ArgLongLong swapchain, ArgPtr allocator] st)"
  by (simp add: all_entries_present_def vulkan_funcs_def returning_def
        X11DRV_vkAcquireNextImageKHR_def X11DRV_vkCreateSwapchainKHR_def
        X11DRV_vkDestroySwapchainKHR_def X11DRV_vkGetPhysicalDeviceSurfaceCapabilitiesKHR_def
        X11DRV_vkGetPhysicalDeviceSurfaceFormatsKHR_def
        X11DRV_vkGetPhysicalDeviceSurfacePresentModesKHR_def
        X11DRV_vkGetPhysicalDeviceSurfaceSupportKHR_def X11DRV_vkGetSwapchainImagesKHR_def
        X11DRV_vkQueuePresentKHR_def)

end
